theory Spec2Isabelle
  imports Complex_Main "HOL-Library.Word" "HOL-Library.Char_ord" "HOL-Library.List_Lexorder"
begin

unbundle bit_operations_syntax

section \<open>The OME-TIFF reader (vtkOMETiffReader.cxx)\<close>

subsection \<open>Row mapping of the scanline fast path\<close>

text \<open>
  \<^verbatim>\<open>GetFileRow\<close> is overloaded on the tag types \<^verbatim>\<open>FlipTrue\<close> and \<^verbatim>\<open>FlipFalse\<close>;
  the tag is a value of a two-element datatype here. Rows and heights are C \<^verbatim>\<open>int\<close>s:
  32-bit words, read as two's complement by \<open>sint\<close> and compared by \<open>\<le>s\<close> and \<open><s\<close>.
\<close>

datatype Flip = FlipTrue | FlipFalse

type_synonym c_int = "32 word"
type_synonym c_uint = "32 word"
type_synonym c_ushort = "16 word"
type_synonym byte = "8 word"

fun GetFileRow :: "c_int \<Rightarrow> c_int \<Rightarrow> Flip \<Rightarrow> c_int" where
  "GetFileRow row height FlipTrue = height - row - 1"
| "GetFileRow row height FlipFalse = row"

definition GetImageRow :: "c_int \<Rightarrow> c_int \<Rightarrow> Flip \<Rightarrow> c_int" where
  "GetImageRow file_row height flip = GetFileRow file_row height flip"

definition image_rows :: "c_int \<Rightarrow> c_int set" where
  "image_rows height = {row. 0 \<le>s row \<and> row <s height}"

subsection \<open>What libtiff hands to the reader\<close>

text \<open>
  The reader keeps the tags of the open file in \<^verbatim>\<open>vtkOMETiffReaderInternal\<close>. The record
  below holds the fields the decoding paths read, with their C types, and the part of the
  open \<^verbatim>\<open>TIFF*\<close> handle that the libtiff calls of these paths return: the photometric and
  colormap tags, and the stored samples. \<open>Samples row j\<close> is byte \<open>j\<close> of the stored
  row \<open>row\<close> of the file, counted over the rows of the whole tile grid: the rows and the
  bytes beyond the image are the padding of the edge tiles.

  The tag values are those of the TIFF 6.0 specification, as \<^verbatim>\<open>tiff.h\<close> defines them.
\<close>

definition ORIENTATION_TOPLEFT :: c_ushort where "ORIENTATION_TOPLEFT = 1"
definition ORIENTATION_BOTLEFT :: c_ushort where "ORIENTATION_BOTLEFT = 4"
definition PHOTOMETRIC_MINISWHITE :: c_ushort where "PHOTOMETRIC_MINISWHITE = 0"
definition PHOTOMETRIC_MINISBLACK :: c_ushort where "PHOTOMETRIC_MINISBLACK = 1"
definition PHOTOMETRIC_RGB :: c_ushort where "PHOTOMETRIC_RGB = 2"
definition PHOTOMETRIC_PALETTE :: c_ushort where "PHOTOMETRIC_PALETTE = 3"
definition PHOTOMETRIC_YCBCR :: c_ushort where "PHOTOMETRIC_YCBCR = 6"

type_synonym colortable = "nat \<Rightarrow> c_ushort"

record InternalImage =
  Width :: c_uint
  Height :: c_uint
  NumberOfPages :: c_ushort
  SamplesPerPixel :: c_ushort
  BitsPerSample :: c_ushort
  Photometrics :: c_ushort
  Orientation :: c_ushort
  TileWidth :: c_uint
  TileHeight :: c_uint
  PhotometricTag :: "c_ushort option"
  ColormapTag :: "(colortable \<times> colortable \<times> colortable) option"
  Samples :: "nat \<Rightarrow> nat \<Rightarrow> byte"

subsection \<open>Colour lookup and pixel evaluation\<close>

datatype ImageFormat = NOFORMAT | RGB | GRAYSCALE | PALETTE_RGB | PALETTE_GRAYSCALE | OTHER

datatype ScalarType =
  VTK_SIGNED_CHAR | VTK_UNSIGNED_CHAR | VTK_SHORT | VTK_UNSIGNED_SHORT
  | VTK_INT | VTK_UNSIGNED_INT | VTK_FLOAT

text \<open>The size in bytes of one output scalar.\<close>

fun ScalarSize :: "ScalarType \<Rightarrow> nat" where
  "ScalarSize VTK_SIGNED_CHAR = 1"
| "ScalarSize VTK_UNSIGNED_CHAR = 1"
| "ScalarSize VTK_SHORT = 2"
| "ScalarSize VTK_UNSIGNED_SHORT = 2"
| "ScalarSize VTK_INT = 4"
| "ScalarSize VTK_UNSIGNED_INT = 4"
| "ScalarSize VTK_FLOAT = 4"

text \<open>
  An \<^verbatim>\<open>int\<close> expression assigned to an output scalar of type \<^verbatim>\<open>T\<close> is converted to
  \<^verbatim>\<open>T\<close>: the integer types keep the low bits, \<^verbatim>\<open>float\<close> keeps the value (the values
  stored here are below \<open>2 ^ 24\<close>, which \<^verbatim>\<open>float\<close> represents exactly).
\<close>

fun convert_to :: "ScalarType \<Rightarrow> int \<Rightarrow> int" where
  "convert_to VTK_SIGNED_CHAR v = sint (word_of_int v :: 8 word)"
| "convert_to VTK_UNSIGNED_CHAR v = uint (word_of_int v :: 8 word)"
| "convert_to VTK_SHORT v = sint (word_of_int v :: 16 word)"
| "convert_to VTK_UNSIGNED_SHORT v = uint (word_of_int v :: 16 word)"
| "convert_to VTK_INT v = sint (word_of_int v :: 32 word)"
| "convert_to VTK_UNSIGNED_INT v = uint (word_of_int v :: 32 word)"
| "convert_to VTK_FLOAT v = v"

datatype reader_error =
  ColorIndexNegative
  | ColorIndexTooLarge int
  | NotAPaletteImage
  | UnsupportedBitsPerSample c_ushort
  | MissingColormap

record OMETiffReader =
  InternalImage :: InternalImage
  ImageFormat :: ImageFormat
  TotalColors :: int
  ColorRed :: "colortable option"
  ColorGreen :: "colortable option"
  ColorBlue :: "colortable option"
  DataScalarType :: ScalarType
  Errors :: "reader_error list"

definition vtkError :: "reader_error \<Rightarrow> OMETiffReader \<Rightarrow> OMETiffReader" where
  "vtkError e r = r\<lparr>Errors := Errors r @ [e]\<rparr>"

text \<open>
  \<^verbatim>\<open>GetColor\<close> answers from the cached tables when there are any
  (\<open>GetColor\<close> below), and otherwise reads the colormap tag and caches it when the
  index is in range (\<open>GetColorFromTag\<close>, the second half of the C++ function). Every
  failure leaves the three colours at zero and logs an error.
\<close>

definition GetColorFromTag ::
  "int \<Rightarrow> OMETiffReader \<Rightarrow> (c_ushort \<times> c_ushort \<times> c_ushort) \<times> OMETiffReader" where
  "GetColorFromTag index r =
     (let img = InternalImage r in
      if PhotometricTag img = None \<and> Photometrics img \<noteq> PHOTOMETRIC_PALETTE
      then ((0, 0, 0), vtkError NotAPaletteImage r)
      else if BitsPerSample img \<notin> {1, 2, 4, 8, 16}
      then ((0, 0, 0), vtkError (UnsupportedBitsPerSample (BitsPerSample img)) r)
      else case ColormapTag img of
        None \<Rightarrow> ((0, 0, 0), vtkError MissingColormap r)
      | Some (red_orig, green_orig, blue_orig) \<Rightarrow>
          let r1 = r\<lparr>TotalColors := 2 ^ unat (BitsPerSample img)\<rparr> in
          if TotalColors r1 \<le> index
          then ((0, 0, 0), vtkError (ColorIndexTooLarge (TotalColors r1)) r1)
          else ((red_orig (nat index), green_orig (nat index), blue_orig (nat index)),
                r1\<lparr>ColorRed := Some red_orig, ColorGreen := Some green_orig,
                   ColorBlue := Some blue_orig\<rparr>))"

definition GetColor ::
  "int \<Rightarrow> OMETiffReader \<Rightarrow> (c_ushort \<times> c_ushort \<times> c_ushort) \<times> OMETiffReader" where
  "GetColor index r =
     (if index < 0 then ((0, 0, 0), vtkError ColorIndexNegative r)
      else case (ColorRed r, ColorGreen r, ColorBlue r) of
        (Some red, Some green, Some blue) \<Rightarrow>
          if 0 < TotalColors r then
            (if TotalColors r \<le> index
             then ((0, 0, 0), vtkError (ColorIndexTooLarge (TotalColors r)) r)
             else ((red (nat index), green (nat index), blue (nat index)), r))
          else GetColorFromTag index r
      | _ \<Rightarrow> GetColorFromTag index r)"

text \<open>
  \<^verbatim>\<open>GetFormat\<close> caches its answer in \<^verbatim>\<open>ImageFormat\<close>. A palette image is
  \<^verbatim>\<open>PALETTE_RGB\<close> as soon as one of the first 256 colours is not grey.
\<close>

fun scan_palette :: "nat \<Rightarrow> int \<Rightarrow> OMETiffReader \<Rightarrow> ImageFormat \<times> OMETiffReader" where
  "scan_palette 0 cc r = (PALETTE_GRAYSCALE, r)"
| "scan_palette (Suc n) cc r =
     (case GetColor cc r of
        ((red, green, blue), r1) \<Rightarrow>
          if red \<noteq> green \<or> red \<noteq> blue then (PALETTE_RGB, r1)
          else scan_palette n (cc + 1) r1)"

definition GetFormat :: "OMETiffReader \<Rightarrow> ImageFormat \<times> OMETiffReader" where
  "GetFormat r =
     (if ImageFormat r \<noteq> NOFORMAT then (ImageFormat r, r)
      else let p = Photometrics (InternalImage r) in
        if p = PHOTOMETRIC_RGB \<or> p = PHOTOMETRIC_YCBCR then (RGB, r\<lparr>ImageFormat := RGB\<rparr>)
        else if p = PHOTOMETRIC_MINISWHITE \<or> p = PHOTOMETRIC_MINISBLACK
        then (GRAYSCALE, r\<lparr>ImageFormat := GRAYSCALE\<rparr>)
        else if p = PHOTOMETRIC_PALETTE
        then (case scan_palette 256 0 r of (f, r1) \<Rightarrow> (f, r1\<lparr>ImageFormat := f\<rparr>))
        else (OTHER, r\<lparr>ImageFormat := OTHER\<rparr>))"

text \<open>
  \<^verbatim>\<open>EvaluateImageAt(out, in)\<close> stores through two views of the output: \<^verbatim>\<open>out\<close>, a
  pointer to scalars of the output type \<^verbatim>\<open>T\<close>, and \<^verbatim>\<open>image\<close>, the same address as a
  pointer to bytes. The model returns the stores in the order the code performs them,
  the value the function returns, and the reader (whose caches the lookups fill).
  \<open>in_value\<close> is \<^verbatim>\<open>static_cast<int>(*in)\<close>, \<open>in_scalar\<close> is \<^verbatim>\<open>*in\<close> itself and
  \<open>source k\<close> is the byte \<^verbatim>\<open>*(source + k)\<close>.
\<close>

datatype store =
  StoreScalar nat int
  | StoreByte nat byte

definition EvaluateImageAt ::
  "OMETiffReader \<Rightarrow> int \<Rightarrow> int \<Rightarrow> (nat \<Rightarrow> byte) \<Rightarrow> store list \<times> int \<times> OMETiffReader" where
  "EvaluateImageAt r in_scalar in_value source =
     (case GetFormat r of (format, r0) \<Rightarrow>
        let T = DataScalarType r0 in
        case format of
          GRAYSCALE \<Rightarrow>
            (if Photometrics (InternalImage r0) = PHOTOMETRIC_MINISBLACK
             then ([StoreScalar 0 in_scalar], 1, r0)
             else ([StoreByte 0 (NOT (source 0))], 1, r0))
        | PALETTE_GRAYSCALE \<Rightarrow>
            (case GetColor (uint (source 0)) r0 of
               ((red, green, blue), r1) \<Rightarrow> ([StoreByte 0 (ucast red)], 1, r1))
        | RGB \<Rightarrow>
            ([StoreByte 0 (source 0), StoreByte 1 (source 1), StoreByte 2 (source 2)]
               @ (if SamplesPerPixel (InternalImage r0) = 4
                  then [StoreByte 3 (255 - source 3)] else []),
             uint (SamplesPerPixel (InternalImage r0)), r0)
        | PALETTE_RGB \<Rightarrow>
            (case GetColor in_value r0 of
               ((red, green, blue), r1) \<Rightarrow>
                 let first = [StoreScalar 0 (convert_to T (uint red * 2 ^ 8)),
                              StoreScalar 1 (convert_to T (uint green * 2 ^ 8)),
                              StoreScalar 2 (convert_to T (uint blue * 2 ^ 8))] in
                 if T = VTK_SHORT \<or> T = VTK_UNSIGNED_SHORT
                 then (case GetColor in_value r1 of
                         ((red, green, blue), r2) \<Rightarrow>
                           (first @ [StoreScalar 0 (convert_to T (uint red * 2 ^ 8)),
                                     StoreScalar 1 (convert_to T (uint green * 2 ^ 8)),
                                     StoreScalar 2 (convert_to T (uint blue * 2 ^ 8))], 3, r2))
                 else (case GetColor in_value r1 of
                         ((red, green, blue), r2) \<Rightarrow>
                           (first @ [StoreScalar 0 (convert_to T (uint red div 2 ^ 8)),
                                     StoreScalar 1 (convert_to T (uint green div 2 ^ 8)),
                                     StoreScalar 2 (convert_to T (uint blue div 2 ^ 8))], 3, r2)))
        | _ \<Rightarrow> ([], 0, r0))"

text \<open>
  The scalar that the stores leave at \<^verbatim>\<open>out[i]\<close>: the value of the last scalar store
  to that index.
\<close>

fun stored_scalar :: "store list \<Rightarrow> nat \<Rightarrow> int option" where
  "stored_scalar [] i = None"
| "stored_scalar (StoreScalar j v # ss) i =
     (case stored_scalar ss i of Some w \<Rightarrow> Some w | None \<Rightarrow> if i = j then Some v else None)"
| "stored_scalar (StoreByte j b # ss) i = stored_scalar ss i"

subsection \<open>Tiled images\<close>

text \<open>
  \<^verbatim>\<open>TIFFReadTile(tif, buf, x, y, z, s)\<close> reads the tile that holds pixel \<open>(x, y, z)\<close>. It
  returns \<open>-1\<close> when libtiff's \<^verbatim>\<open>TIFFCheckTile\<close> finds the coordinates outside the
  image (\<open>x \<ge> width\<close>, \<open>y \<ge> length\<close> or \<open>z \<ge> depth\<close>, the depth of these files being
  1); otherwise it fills \<^verbatim>\<open>buf\<close> with the \<^verbatim>\<open>TIFFTileSize\<close> bytes of the tile, row by
  row. Failures of the storage itself are not part of the model.
\<close>

definition TIFFTileRowSize :: "InternalImage \<Rightarrow> nat" where
  "TIFFTileRowSize img =
     (unat (BitsPerSample img) * unat (SamplesPerPixel img) * unat (TileWidth img) + 7) div 8"

definition TIFFTileSize :: "InternalImage \<Rightarrow> nat" where
  "TIFFTileSize img = TIFFTileRowSize img * unat (TileHeight img)"

definition TIFFReadTile :: "InternalImage \<Rightarrow> c_uint \<Rightarrow> c_uint \<Rightarrow> c_uint \<Rightarrow> byte list option" where
  "TIFFReadTile img x y z =
     (if Width img \<le> x \<or> Height img \<le> y \<or> 1 \<le> z then None
      else let tx = unat x div unat (TileWidth img);
               ty = unat y div unat (TileHeight img);
               n = TIFFTileRowSize img
           in Some (concat (map (\<lambda>yy. map (\<lambda>j. Samples img (ty * unat (TileHeight img) + yy)
                                                    (tx * n + j)) [0..<n])
                               [0..<unat (TileHeight img)])))"

text \<open>
  How a decode ends: with the output filled, on the error path of the code (the tile at
  \<open>(r, col)\<close> could not be read; the function logs it and returns, leaving the output as
  it is at that moment), or in undefined behaviour: a division by zero, or a
  \<^verbatim>\<open>memcpy\<close> that leaves the output buffer or the tile buffer (offset and count given).
\<close>

datatype decode_outcome =
  Completed "byte list"
  | CannotReadTile c_uint c_uint "byte list"
  | DivisionByZero
  | WriteOutOfBounds nat nat
  | ReadOutOfBounds nat nat

definition memcpy :: "byte list \<Rightarrow> nat \<Rightarrow> byte list \<Rightarrow> nat \<Rightarrow> nat \<Rightarrow> decode_outcome" where
  "memcpy dst doff src soff n =
     (if length src < soff + n then ReadOutOfBounds soff n
      else if length dst < doff + n then WriteOutOfBounds doff n
      else Completed (take doff dst @ take n (drop soff src) @ drop (doff + n) dst))"

text \<open>
  The innermost loop of each pass copies one tile row per iteration: \<open>n\<close> bytes from
  offset \<open>src yy\<close> of the tile to offset \<open>dst yy\<close> of the volume, both offsets and the
  count computed in \<^verbatim>\<open>unsigned int\<close>.
\<close>

fun copy_rows ::
  "(c_uint \<Rightarrow> c_uint) \<Rightarrow> (c_uint \<Rightarrow> c_uint) \<Rightarrow> c_uint \<Rightarrow> byte list \<Rightarrow> nat list \<Rightarrow> byte list
     \<Rightarrow> decode_outcome" where
  "copy_rows dst src n tile [] volume = Completed volume"
| "copy_rows dst src n tile (yy # yys) volume =
     (case memcpy volume (unat (dst (of_nat yy))) tile (unat (src (of_nat yy))) (unat n) of
        Completed volume1 \<Rightarrow> copy_rows dst src n tile yys volume1
      | failure \<Rightarrow> failure)"

definition flip :: "InternalImage \<Rightarrow> bool" where
  "flip img = (Orientation img \<noteq> ORIENTATION_TOPLEFT)"

definition pixelSize :: "InternalImage \<Rightarrow> c_uint" where
  "pixelSize img = ucast (SamplesPerPixel img)"

definition rowMultiple :: "InternalImage \<Rightarrow> bool" where
  "rowMultiple img = (Height img mod TileHeight img = 0)"

definition colMultiple :: "InternalImage \<Rightarrow> bool" where
  "colMultiple img = (Width img mod TileWidth img = 0)"

text \<open>The loop bounds \<^verbatim>\<open>rowMultiple ? height : height - tileHeight\<close> and its column twin.\<close>

definition row_bound :: "InternalImage \<Rightarrow> c_uint" where
  "row_bound img = (if rowMultiple img then Height img else Height img - TileHeight img)"

definition col_bound :: "InternalImage \<Rightarrow> c_uint" where
  "col_bound img = (if colMultiple img then Width img else Width img - TileWidth img)"

text \<open>
  The row of a tile row \<open>yy\<close> inside its band of the output,
  \<^verbatim>\<open>flip ? tileHeight + height % tileHeight - yy - 1 : yy\<close>.
\<close>

definition band_row :: "InternalImage \<Rightarrow> c_uint \<Rightarrow> c_uint" where
  "band_row img yy =
     (if flip img then TileHeight img + Height img mod TileHeight img - yy - 1 else yy)"

definition edge_row :: "InternalImage \<Rightarrow> c_uint \<Rightarrow> c_uint" where
  "edge_row img yy = (if flip img then Height img mod TileHeight img - yy - 1 else yy)"

text \<open>
  The loops over \<^verbatim>\<open>row\<close> and \<^verbatim>\<open>col\<close> step by the tile size in \<^verbatim>\<open>unsigned int\<close>
  and may wrap around: a result \<open>None\<close> is a loop that does not end.
\<close>

partial_function (option) main_cols ::
  "InternalImage \<Rightarrow> c_uint \<Rightarrow> c_uint \<Rightarrow> c_uint \<Rightarrow> byte list \<Rightarrow> decode_outcome option" where
  "main_cols img slice_no row col volume =
     (if col < col_bound img then
        (let r = (if flip img then Height img - row - TileHeight img else row) in
         case TIFFReadTile img col r slice_no of
           None \<Rightarrow> Some (CannotReadTile r col volume)
         | Some tile \<Rightarrow>
             (case copy_rows
                     (\<lambda>yy. (((slice_no + 0) * Height img + row + band_row img yy) * Width img + col)
                             * pixelSize img)
                     (\<lambda>yy. (0 * TileHeight img + yy) * TileWidth img * pixelSize img)
                     (TileWidth img * pixelSize img) tile [0..<unat (TileHeight img)] volume of
                Completed volume1 \<Rightarrow> main_cols img slice_no row (col + TileWidth img) volume1
              | failure \<Rightarrow> Some failure))
      else Some (Completed volume))"

declare main_cols.simps [code]

partial_function (option) main_rows ::
  "InternalImage \<Rightarrow> c_uint \<Rightarrow> c_uint \<Rightarrow> byte list \<Rightarrow> decode_outcome option" where
  "main_rows img slice_no row volume =
     (if row < row_bound img then
        (case main_cols img slice_no row 0 volume of
           None \<Rightarrow> None
         | Some (Completed volume1) \<Rightarrow> main_rows img slice_no (row + TileHeight img) volume1
         | Some failure \<Rightarrow> Some failure)
      else Some (Completed volume))"

declare main_rows.simps [code]

fun main_slices :: "InternalImage \<Rightarrow> nat list \<Rightarrow> byte list \<Rightarrow> decode_outcome option" where
  "main_slices img [] volume = Some (Completed volume)"
| "main_slices img (slice_no # slice_nos) volume =
     (case main_rows img (of_nat slice_no) 0 volume of
        None \<Rightarrow> None
      | Some (Completed volume1) \<Rightarrow> main_slices img slice_nos volume1
      | Some failure \<Rightarrow> Some failure)"

text \<open>The pass over the partial tiles of the right edge, on slice 0.\<close>

partial_function (option) right_edge_rows ::
  "InternalImage \<Rightarrow> c_uint \<Rightarrow> byte list \<Rightarrow> decode_outcome option" where
  "right_edge_rows img row volume =
     (if row < row_bound img then
        (let lenx = Width img mod TileWidth img;
             col = Width img - lenx;
             tilexWidth = lenx;
             r = (if flip img then Height img - row - TileHeight img - 1 else row) in
         case TIFFReadTile img col r 0 of
           None \<Rightarrow> Some (CannotReadTile r col volume)
         | Some tile \<Rightarrow>
             (case copy_rows
                     (\<lambda>yy. (((0 + 0) * Height img + row + band_row img yy) * Width img + col)
                             * pixelSize img)
                     (\<lambda>yy. (0 * TileHeight img + yy) * TileWidth img * pixelSize img)
                     (tilexWidth * pixelSize img) tile [0..<unat (TileHeight img)] volume of
                Completed volume1 \<Rightarrow> right_edge_rows img (row + TileHeight img) volume1
              | failure \<Rightarrow> Some failure))
      else Some (Completed volume))"

declare right_edge_rows.simps [code]

text \<open>The pass over the partial tiles of the bottom edge, on slice 0.\<close>

partial_function (option) bottom_edge_cols ::
  "InternalImage \<Rightarrow> c_uint \<Rightarrow> byte list \<Rightarrow> decode_outcome option" where
  "bottom_edge_cols img col volume =
     (if col < col_bound img then
        (let leny = Height img mod TileHeight img;
             row = Height img - leny;
             r = (if flip img then 0 else row) in
         case TIFFReadTile img col row 0 of
           None \<Rightarrow> Some (CannotReadTile r col volume)
         | Some tile \<Rightarrow>
             (case copy_rows
                     (\<lambda>yy. (((0 + 0) * Height img + r + edge_row img yy) * Width img + col)
                             * pixelSize img)
                     (\<lambda>yy. (0 * TileHeight img + yy) * TileWidth img * pixelSize img)
                     (TileWidth img * pixelSize img) tile [0..<unat leny] volume of
                Completed volume1 \<Rightarrow> bottom_edge_cols img (col + TileWidth img) volume1
              | failure \<Rightarrow> Some failure))
      else Some (Completed volume))"

declare bottom_edge_cols.simps [code]

text \<open>The corner tile.\<close>

definition corner_tile :: "InternalImage \<Rightarrow> byte list \<Rightarrow> decode_outcome" where
  "corner_tile img volume =
     (let lenx = Width img mod TileWidth img;
          col = Width img - lenx;
          leny = Height img mod TileHeight img;
          row = Height img - leny;
          tilexWidth = lenx;
          r = (if flip img then 0 else row) in
      case TIFFReadTile img col row 0 of
        None \<Rightarrow> CannotReadTile r col volume
      | Some tile \<Rightarrow>
          copy_rows
            (\<lambda>yy. (((0 + 0) * Height img + r + edge_row img yy) * Width img + col) * pixelSize img)
            (\<lambda>yy. (0 * TileHeight img + yy) * TileWidth img * pixelSize img)
            (tilexWidth * pixelSize img) tile [0..<unat leny] volume)"

text \<open>
  \<^verbatim>\<open>ReadTiles\<close>: the full tiles of every slice, then the three boundary passes. The two
  remainders \<^verbatim>\<open>height % tileHeight\<close> and \<^verbatim>\<open>width % tileWidth\<close> are computed first.
\<close>

definition ReadTiles :: "InternalImage \<Rightarrow> byte list \<Rightarrow> decode_outcome option" where
  "ReadTiles img volume =
     (if TileHeight img = 0 \<or> TileWidth img = 0 then Some DivisionByZero
      else case main_slices img [0..<unat (NumberOfPages img)] volume of
        None \<Rightarrow> None
      | Some (Completed volume1) \<Rightarrow>
          (case (if \<not> colMultiple img then right_edge_rows img 0 volume1
                 else Some (Completed volume1)) of
             None \<Rightarrow> None
           | Some (Completed volume2) \<Rightarrow>
               (case (if \<not> rowMultiple img then bottom_edge_cols img 0 volume2
                      else Some (Completed volume2)) of
                  None \<Rightarrow> None
                | Some (Completed volume3) \<Rightarrow>
                    Some (if \<not> colMultiple img \<and> \<not> rowMultiple img
                          then corner_tile img volume3 else Completed volume3)
                | Some failure \<Rightarrow> Some failure)
           | Some failure \<Rightarrow> Some failure)
      | Some failure \<Rightarrow> Some failure)"

subsection \<open>Example files\<close>

text \<open>
  A single grayscale image of one byte per pixel in tiles of 16 by 16 pixels; the byte at
  column \<open>j\<close> of the stored row \<open>row\<close> is \<open>32 * row + j\<close> (modulo 256). An output
  buffer of \<open>n\<close> bytes, all zero.
\<close>

definition small_tiff :: "c_uint \<Rightarrow> c_uint \<Rightarrow> c_ushort \<Rightarrow> InternalImage" where
  "small_tiff w h orient =
     \<lparr>Width = w, Height = h, NumberOfPages = 1, SamplesPerPixel = 1, BitsPerSample = 8,
      Photometrics = PHOTOMETRIC_MINISBLACK, Orientation = orient,
      TileWidth = 16, TileHeight = 16,
      PhotometricTag = Some PHOTOMETRIC_MINISBLACK, ColormapTag = None,
      Samples = (\<lambda>row j. of_nat (row * 32 + j))\<rparr>"

definition zeros :: "nat \<Rightarrow> byte list" where
  "zeros n = replicate n 0"

section \<open>The data source (DataSource.cxx)\<close>

subsection \<open>Images, arrays and field data\<close>

text \<open>
  The VTK objects the data source works on, as values. An image has an extent (six C
  \<^verbatim>\<open>int\<close>s, inclusive bounds), a spacing, the arrays of its point data in their order, the
  index of the array that is the active scalars, if any, and its field data. An array
  has a name, a number of components, the size in bytes of one component (\<^verbatim>\<open>sizeof(T)\<close>
  of its scalar type) and its storage as raw bytes, tuple after tuple.

  Names are \<^verbatim>\<open>QString\<close>s on the data source's side and C strings on VTK's; the model
  uses one type of strings for both, which the conversion \<^verbatim>\<open>toLatin1().data()\<close>
  leaves as they are (Latin-1 text without a NUL character).
\<close>

record extent =
  x0 :: int
  x1 :: int
  y0 :: int
  y1 :: int
  z0 :: int
  z1 :: int

record vtkDataArray =
  ArrayName :: string
  NumberOfComponents :: nat
  ElementSize :: nat
  Storage :: "byte list"

datatype DataSourceType = Volume | TiltSeries | FIB

text \<open>
  The field data arrays the data source uses: the type tag (a one-element
  \<^verbatim>\<open>vtkTypeInt8Array\<close> holding the enum value; the model keeps the enum), the tilt angles,
  the units and the three subsampling records. A slot of the tilt angle array holds a
  \<^verbatim>\<open>double\<close>, or is \<open>None\<close> where the memory was allocated and never written.

  \<^verbatim>\<open>AddArray\<close> and the assignment of a smart pointer share an array, they do not copy it.
  The units array of a field data is therefore either a string array of its own, or the
  one array that the data source holds in \<^verbatim>\<open>Internals->Units\<close>: then its values are those
  of \<open>Units\<close> in the state of the data source, and a write through either changes both.
\<close>

datatype vtkStringArray =
  StringArray "string list"
  | UnitsOfDataSource

record vtkFieldData =
  tomviz_data_source_type :: "DataSourceType option"
  tilt_angles :: "real option list option"
  units :: "vtkStringArray option"
  was_subsampled :: "bool option"
  subsample_strides :: "int list option"
  subsample_volume_bounds :: "int list option"

record vtkImageData =
  Extent :: extent
  Spacing :: "real list"
  PointData :: "vtkDataArray list"
  ActiveScalarsIndex :: "nat option"
  FieldData :: vtkFieldData

definition GetNumberOfTuples :: "vtkDataArray \<Rightarrow> nat" where
  "GetNumberOfTuples a = length (Storage a) div (NumberOfComponents a * ElementSize a)"

text \<open>The number of points of an extent: the product of its three lengths.\<close>

definition NumberOfPoints :: "extent \<Rightarrow> nat" where
  "NumberOfPoints e =
     (if x1 e < x0 e \<or> y1 e < y0 e \<or> z1 e < z0 e then 0
      else nat (x1 e - x0 e + 1) * nat (y1 e - y0 e + 1) * nat (z1 e - z0 e + 1))"

text \<open>\<^verbatim>\<open>GetPointData()->GetScalars()\<close>: the active scalars, or null.\<close>

definition GetScalars :: "vtkImageData \<Rightarrow> vtkDataArray option" where
  "GetScalars img =
     (case ActiveScalarsIndex img of
        None \<Rightarrow> None
      | Some i \<Rightarrow> if i < length (PointData img) then Some (PointData img ! i) else None)"

text \<open>The index of the first array with a given name: \<^verbatim>\<open>HasArray\<close>, \<^verbatim>\<open>GetArray\<close>.\<close>

fun GetArrayIndex :: "string \<Rightarrow> vtkDataArray list \<Rightarrow> nat option" where
  "GetArrayIndex name [] = None"
| "GetArrayIndex name (a # as) =
     (if ArrayName a = name then Some 0 else map_option Suc (GetArrayIndex name as))"

definition HasArray :: "string \<Rightarrow> vtkImageData \<Rightarrow> bool" where
  "HasArray name img = (GetArrayIndex name (PointData img) \<noteq> None)"

definition SetActiveScalars :: "string \<Rightarrow> vtkImageData \<Rightarrow> vtkImageData" where
  "SetActiveScalars name img = img\<lparr>ActiveScalarsIndex := GetArrayIndex name (PointData img)\<rparr>"

definition SetName :: "nat \<Rightarrow> string \<Rightarrow> vtkImageData \<Rightarrow> vtkImageData" where
  "SetName i name img =
     img\<lparr>PointData := (PointData img)[i := (PointData img ! i)\<lparr>ArrayName := name\<rparr>]\<rparr>"

text \<open>
  \<^verbatim>\<open>SetNumberOfTuples\<close> on an existing array keeps the leading values when the array
  shrinks. When it grows it allocates, and VTK documents that no copy is performed then:
  every slot is unwritten memory.
\<close>

definition SetNumberOfTuples :: "nat \<Rightarrow> 'a option list \<Rightarrow> 'a option list" where
  "SetNumberOfTuples n xs = (if n \<le> length xs then take n xs else replicate n None)"

text \<open>
  An expression of type \<^verbatim>\<open>int\<close> whose exact value leaves the range of \<^verbatim>\<open>int\<close> has no
  defined value; the model gives it the value two's complement arithmetic gives, its low
  32 bits.
\<close>

definition c_int_value :: "int \<Rightarrow> int" where
  "c_int_value k = sint (word_of_int k :: 32 word)"

text \<open>
  \<^verbatim>\<open>createOrResizeTiltAnglesArray\<close> computes the number of tilt angles in an \<^verbatim>\<open>int\<close>. A
  count below zero leaves no slot.
\<close>

definition createOrResizeTiltAnglesArray :: "vtkImageData \<Rightarrow> vtkImageData" where
  "createOrResizeTiltAnglesArray data0 =
     (let fd = FieldData data0;
          numTiltAngles = c_int_value (z1 (Extent data0) - z0 (Extent data0) + 1)
      in case tilt_angles fd of
           None \<Rightarrow>
             data0\<lparr>FieldData := fd\<lparr>tilt_angles := Some (replicate (nat numTiltAngles) (Some 0))\<rparr>\<rparr>
         | Some array \<Rightarrow>
             if numTiltAngles \<noteq> int (length array)
             then data0\<lparr>FieldData :=
                    fd\<lparr>tilt_angles := Some (SetNumberOfTuples (nat numTiltAngles) array)\<rparr>\<rparr>
             else data0)"

subsection \<open>The state of a data source\<close>

text \<open>
  \<^verbatim>\<open>DSInternals\<close> and the members of \<^verbatim>\<open>DataSource\<close> in one record. The producer's output
  data object is a field of the state (the model covers data sources that hold an image).
  A time series step is the image it holds. \<^verbatim>\<open>SetOutput\<close> makes the image of a step the
  output itself, it does not copy it: such a step is \<open>ProducerImage\<close>, its image is
  \<open>ProducerOutput\<close> and changes with it. The other steps hold images of their own, each
  a different object. \<^verbatim>\<open>m_json\<close> is kept by the two entries this
  file writes to it. \<^verbatim>\<open>CurrentToOriginal\<close> is a \<^verbatim>\<open>QMap\<close>: a list of pairs in the order
  of its keys. What the code prints is in \<open>Messages\<close>; the signals it emits and its calls
  to the pipeline and to the colour map are in \<open>Events\<close>, in their order. The colour and
  opacity maps, the 2D transfer function box and the object's address (\<^verbatim>\<open>id()\<close>) are not
  part of the model.
\<close>

datatype message =
  UnableToSelectActiveScalars string
  | TimeStepOutOfBounds int nat
  | ExtentMismatch int int

datatype event =
  dataChanged | dataPropertiesChanged | activeScalarsChanged | timeStepChanged
  | timeStepsModified | displayPositionChanged | displayOrientationChanged
  | operatorAdded | rescaleColorMap | pipelinePause | pipelineResume | pipelineExecute

datatype PersistenceState = Saved | Modified | Transient

datatype step_image =
  OwnImage vtkImageData
  | ProducerImage

text \<open>
  An operator and a module, as far as the data source sees them: the type name their
  factory is asked for, and whether the factory and \<^verbatim>\<open>deserialize\<close> accept the entry.
\<close>

record Operator =
  operator_type :: string
  operator_restorable :: bool

record Module =
  module_type :: string
  module_viewId :: int

record DataSource =
  m_json_label :: "string option"
  m_json_fileNames :: "string list option"
  ProducerOutput :: vtkImageData
  Operators :: "Operator list"
  Modules :: "Module list"
  Type :: DataSourceType
  Units :: "string list option"
  DisplayPosition :: "real list"
  DisplayOrientation :: "real list"
  PersistState :: PersistenceState
  UnitsModified :: bool
  CurrentToOriginal :: "(string \<times> string) list"
  timeSeriesSteps :: "step_image list"
  currentTimeStep :: int
  m_changingTimeStep :: bool
  Messages :: "message list"
  Events :: "event list"

definition qWarning :: "message \<Rightarrow> DataSource \<Rightarrow> DataSource" where
  "qWarning m s = s\<lparr>Messages := Messages s @ [m]\<rparr>"

text \<open>
  Emitting \<^verbatim>\<open>dataChanged\<close> runs the slot \<^verbatim>\<open>updateColorMap\<close>, which rescales the colour
  map unless a time step is being changed.
\<close>

definition emit :: "event \<Rightarrow> DataSource \<Rightarrow> DataSource" where
  "emit e s =
     s\<lparr>Events := Events s @ [e]
          @ (if e = dataChanged \<and> \<not> m_changingTimeStep s then [rescaleColorMap] else [])\<rparr>"

subsection \<open>The rename map\<close>

text \<open>
  The three operations of \<^verbatim>\<open>QMap<QString, QString>\<close> the code uses. \<^verbatim>\<open>operator[]\<close> on a
  missing key yields an empty string; the entry it inserts for it is removed by the
  \<^verbatim>\<open>remove\<close> that follows in the code.
\<close>

definition qmap_value :: "(string \<times> string) list \<Rightarrow> string \<Rightarrow> string" where
  "qmap_value m k = (case map_of m k of Some v \<Rightarrow> v | None \<Rightarrow> [])"

definition qmap_remove :: "string \<Rightarrow> (string \<times> string) list \<Rightarrow> (string \<times> string) list" where
  "qmap_remove k m = filter (\<lambda>p. fst p \<noteq> k) m"

definition qmap_insert :: "string \<Rightarrow> string \<Rightarrow> (string \<times> string) list \<Rightarrow> (string \<times> string) list" where
  "qmap_insert k v m = insort_key fst (k, v) (qmap_remove k m)"

subsection \<open>Type and tilt angles\<close>

definition clearTiltAngles :: "vtkImageData \<Rightarrow> vtkImageData" where
  "clearTiltAngles img = img\<lparr>FieldData := (FieldData img)\<lparr>tilt_angles := None\<rparr>\<rparr>"

text \<open>The static \<^verbatim>\<open>setType(image, t)\<close>.\<close>

definition setType_image :: "DataSourceType \<Rightarrow> vtkImageData \<Rightarrow> vtkImageData" where
  "setType_image t img =
     (let img1 = img\<lparr>FieldData := (FieldData img)\<lparr>tomviz_data_source_type := Some t\<rparr>\<rparr>
      in if t \<noteq> TiltSeries then clearTiltAngles img1 else img1)"

definition ensureTiltAnglesArrayExists :: "DataSource \<Rightarrow> DataSource" where
  "ensureTiltAnglesArrayExists s =
     s\<lparr>ProducerOutput := createOrResizeTiltAnglesArray (ProducerOutput s)\<rparr>"

definition setType :: "DataSourceType \<Rightarrow> DataSource \<Rightarrow> DataSource" where
  "setType t s =
     (let s1 = s\<lparr>Type := t\<rparr>;
          s2 = s1\<lparr>ProducerOutput := setType_image t (ProducerOutput s1)\<rparr>;
          s3 = (if t = TiltSeries then ensureTiltAnglesArrayExists s2 else s2)
      in emit dataChanged s3)"

definition getTiltAngles :: "DataSource \<Rightarrow> real option list" where
  "getTiltAngles s =
     (case tilt_angles (FieldData (ProducerOutput s)) of None \<Rightarrow> [] | Some array \<Rightarrow> array)"

text \<open>
  The loop of \<^verbatim>\<open>setTiltAngles\<close> writes \<open>angles[i]\<close> to slot \<open>i\<close> for every \<open>i\<close> below both
  lengths.
\<close>

definition setTiltAngles_image :: "real list \<Rightarrow> vtkImageData \<Rightarrow> vtkImageData" where
  "setTiltAngles_image angles data0 =
     (let data1 = createOrResizeTiltAnglesArray data0 in
      case tilt_angles (FieldData data1) of
        None \<Rightarrow> data1
      | Some array \<Rightarrow>
          data1\<lparr>FieldData := (FieldData data1)\<lparr>tilt_angles :=
            Some (map Some (take (length array) angles) @ drop (length angles) array)\<rparr>\<rparr>)"

definition setTiltAngles :: "real list \<Rightarrow> DataSource \<Rightarrow> DataSource" where
  "setTiltAngles angles s =
     emit dataChanged (s\<lparr>ProducerOutput := setTiltAngles_image angles (ProducerOutput s)\<rparr>)"

text \<open>
  \<^verbatim>\<open>dataModified\<close> takes the type from the tag of the output's field data when there is
  one, and writes the tag from its own type otherwise.
\<close>

definition dataModified :: "DataSource \<Rightarrow> DataSource" where
  "dataModified s =
     (let fd = FieldData (ProducerOutput s);
          s1 = (case tomviz_data_source_type fd of
                  Some t \<Rightarrow> setType t s
                | None \<Rightarrow> s\<lparr>ProducerOutput := (ProducerOutput s)\<lparr>FieldData :=
                            fd\<lparr>tomviz_data_source_type := Some (Type s)\<rparr>\<rparr>\<rparr>)
      in emit dataChanged s1)"

subsection \<open>Scalar arrays\<close>

definition listScalars :: "DataSource \<Rightarrow> string list" where
  "listScalars s = map ArrayName (PointData (ProducerOutput s))"

text \<open>The name of the active scalars, the empty string when there are none.\<close>

definition activeScalars :: "DataSource \<Rightarrow> string" where
  "activeScalars s =
     (case GetScalars (ProducerOutput s) of None \<Rightarrow> [] | Some scalars \<Rightarrow> ArrayName scalars)"

text \<open>
  \<^verbatim>\<open>getScalarsArray\<close> returns null when the point data has no array of that name, and
  \<^verbatim>\<open>pointData->GetScalars(name)\<close> otherwise, which is the array of that name (its index
  here), except for the empty name: VTK answers \<^verbatim>\<open>GetScalars("")\<close> with the active
  scalars.
\<close>

definition getScalarsArray :: "string \<Rightarrow> DataSource \<Rightarrow> nat option" where
  "getScalarsArray arrayName s =
     (let data0 = ProducerOutput s in
      if \<not> HasArray arrayName data0 then None
      else if arrayName = [] then
        (case ActiveScalarsIndex data0 of
           None \<Rightarrow> None
         | Some i \<Rightarrow> if i < length (PointData data0) then Some i else None)
      else GetArrayIndex arrayName (PointData data0))"

definition setActiveScalars :: "string \<Rightarrow> DataSource \<Rightarrow> DataSource" where
  "setActiveScalars arrayName s =
     (case getScalarsArray arrayName s of
        None \<Rightarrow> qWarning (UnableToSelectActiveScalars arrayName) s
      | Some _ \<Rightarrow>
          emit dataPropertiesChanged (emit activeScalarsChanged (dataModified
            (s\<lparr>ProducerOutput := SetActiveScalars arrayName (ProducerOutput s)\<rparr>))))"

definition renameScalarsArray :: "string \<Rightarrow> string \<Rightarrow> DataSource \<Rightarrow> DataSource" where
  "renameScalarsArray oldName newName s =
     (if oldName = newName then s
      else let isCurrentScalars = (oldName = activeScalars s) in
        case getScalarsArray oldName s of
          None \<Rightarrow> s
        | Some dataArray \<Rightarrow>
            (case getScalarsArray newName s of
               Some targetArray \<Rightarrow> s
             | None \<Rightarrow>
                 let s1 = s\<lparr>ProducerOutput := SetName dataArray newName (ProducerOutput s)\<rparr>;
                     s2 = (if isCurrentScalars then setActiveScalars newName s1
                           else emit dataPropertiesChanged
                                  (emit activeScalarsChanged (dataModified s1)));
                     originalName = qmap_value (CurrentToOriginal s2) oldName
                 in s2\<lparr>CurrentToOriginal :=
                      qmap_insert newName originalName
                        (qmap_remove oldName (CurrentToOriginal s2))\<rparr>))"

subsection \<open>Construction and replacement of the data\<close>

definition identity_renames :: "string list \<Rightarrow> (string \<times> string) list" where
  "identity_renames names = fold (\<lambda>name m. qmap_insert name name m) names []"

definition ensureActiveArray :: "vtkImageData \<Rightarrow> vtkImageData" where
  "ensureActiveArray img =
     (if GetScalars img \<noteq> None \<or> PointData img = [] then img
      else SetActiveScalars (ArrayName (hd (PointData img))) img)"

text \<open>
  \<^verbatim>\<open>init\<close>, as the constructors call it on an image: the fields of a new data source.
  The call of \<^verbatim>\<open>updateColorMap\<close> at its end is the one event.
\<close>

definition init :: "vtkImageData \<Rightarrow> DataSourceType \<Rightarrow> PersistenceState \<Rightarrow> DataSource" where
  "init data0 dataType persistState =
     (let output = ensureActiveArray data0 in
      \<lparr>m_json_label = None, m_json_fileNames = None, ProducerOutput = output,
       Operators = [], Modules = [], Type = dataType, Units = None,
       DisplayPosition = [0, 0, 0], DisplayOrientation = [0, 0, 0],
       PersistState = persistState, UnitsModified = False,
       CurrentToOriginal = identity_renames (map ArrayName (PointData output)),
       timeSeriesSteps = [], currentTimeStep = 0, m_changingTimeStep = False,
       Messages = [], Events = [rescaleColorMap]\<rparr>)"

text \<open>
  When the output is replaced, the steps whose image it was keep that image as it is at
  that moment. When \<^verbatim>\<open>Internals->Units\<close> is made to point to another array, or an image
  is deep-copied, a units array that is the array of the data source becomes an array of
  its own with the values \<open>u\<close> that array has.
\<close>

fun release :: "vtkImageData \<Rightarrow> step_image \<Rightarrow> step_image" where
  "release output ProducerImage = OwnImage output"
| "release output (OwnImage img) = OwnImage img"

definition own_units :: "string list option \<Rightarrow> vtkImageData \<Rightarrow> vtkImageData" where
  "own_units u img =
     (case units (FieldData img) of
        Some UnitsOfDataSource \<Rightarrow>
          img\<lparr>FieldData := (FieldData img)\<lparr>units := map_option StringArray u\<rparr>\<rparr>
      | _ \<Rightarrow> img)"

fun own_step_units :: "string list option \<Rightarrow> step_image \<Rightarrow> step_image" where
  "own_step_units u ProducerImage = ProducerImage"
| "own_step_units u (OwnImage img) = OwnImage (own_units u img)"

text \<open>
  \<^verbatim>\<open>setData(newData)\<close>, for an image \<open>newData\<close> that is neither the output nor the image
  of a step.
\<close>

definition setData :: "vtkImageData \<Rightarrow> DataSource \<Rightarrow> DataSource" where
  "setData newData s =
     (let s1 = s\<lparr>ProducerOutput := newData,
                  timeSeriesSteps := map (release (ProducerOutput s)) (timeSeriesSteps s)\<rparr>;
          typeArray = tomviz_data_source_type (FieldData newData);
          s2 = (if typeArray = Some TiltSeries
                then (ensureTiltAnglesArrayExists s1)\<lparr>Type := TiltSeries\<rparr>
                else if typeArray = Some FIB then s1\<lparr>Type := FIB\<rparr>
                else s1\<lparr>Type := Volume\<rparr>);
          fd = FieldData (ProducerOutput s2);
          s3 = (case units fd of
                  Some (StringArray u) \<Rightarrow>
                    s2\<lparr>Units := Some u,
                       ProducerOutput :=
                         (ProducerOutput s2)\<lparr>FieldData := fd\<lparr>units := Some UnitsOfDataSource\<rparr>\<rparr>,
                       timeSeriesSteps := map (own_step_units (Units s2)) (timeSeriesSteps s2)\<rparr>
                | Some UnitsOfDataSource \<Rightarrow> s2
                | None \<Rightarrow>
                    (case Units s2 of
                       Some u \<Rightarrow> s2\<lparr>ProducerOutput :=
                                  (ProducerOutput s2)\<lparr>FieldData :=
                                     fd\<lparr>units := Some UnitsOfDataSource\<rparr>\<rparr>\<rparr>
                     | None \<Rightarrow> s2));
          s4 = s3\<lparr>ProducerOutput := (ProducerOutput s3)\<lparr>FieldData :=
                 (FieldData (ProducerOutput s3))\<lparr>tomviz_data_source_type := Some (Type s3)\<rparr>\<rparr>\<rparr>;
          s5 = s4\<lparr>CurrentToOriginal := identity_renames (listScalars s4)\<rparr>
      in dataModified s5)"

text \<open>
  \<^verbatim>\<open>copyData(newData)\<close> deep-copies the new data into the output, which stays the object
  it is: the arrays of the copy are new objects.
\<close>

definition copyData :: "vtkImageData \<Rightarrow> DataSource \<Rightarrow> DataSource" where
  "copyData newData s =
     emit activeScalarsChanged
       (dataModified (s\<lparr>ProducerOutput := own_units (Units s) newData\<rparr>))"

subsection \<open>Time series\<close>

definition numTimeSeriesSteps :: "DataSource \<Rightarrow> int" where
  "numTimeSeriesSteps s = int (length (timeSeriesSteps s))"

definition currentTimeSeriesIndex :: "DataSource \<Rightarrow> int" where
  "currentTimeSeriesIndex s = currentTimeStep s"

text \<open>
  \<^verbatim>\<open>switchTimeSeriesStep\<close> returns, or reaches \<^verbatim>\<open>timeSeriesSteps[i]\<close> with an index
  outside the list: \<^verbatim>\<open>QList::operator[]\<close> asserts that the index is valid and has no
  defined result otherwise. The state given with \<open>InvalidListAccess\<close> is the one the
  access is made in. With a valid index the image of the step becomes the output; the
  steps whose image the output was keep it as it is at that moment.
\<close>

datatype switch_outcome =
  Returned DataSource
  | InvalidListAccess DataSource

definition switchTimeSeriesStep :: "int \<Rightarrow> DataSource \<Rightarrow> switch_outcome" where
  "switchTimeSeriesStep i s =
     (if int (length (timeSeriesSteps s)) \<le> i
      then Returned (qWarning (TimeStepOutOfBounds i (length (timeSeriesSteps s))) s)
      else let s1 = s\<lparr>m_changingTimeStep := True\<rparr>;
               s2 = s1\<lparr>currentTimeStep := i\<rparr>
           in if i < 0 then InvalidListAccess s2
              else let s3 = (case timeSeriesSteps s2 ! nat i of
                                   ProducerImage \<Rightarrow> s2
                                 | OwnImage img \<Rightarrow>
                                     s2\<lparr>ProducerOutput := img,
                                        timeSeriesSteps :=
                                          (map (release (ProducerOutput s2)) (timeSeriesSteps s2))
                                            [nat i := ProducerImage]\<rparr>);
                       s4 = dataModified s3;
                       s5 = s4\<lparr>m_changingTimeStep := False\<rparr>
                   in Returned (emit timeStepChanged s5))"

subsection \<open>Appending a slice\<close>

text \<open>
  How \<^verbatim>\<open>appendSlice\<close> can leave defined behaviour: \<^verbatim>\<open>GetScalarPointer()\<close> aborts on an
  image without scalars, \<^verbatim>\<open>new[]\<close> throws on a negative size, \<^verbatim>\<open>++extents[5]\<close> overflows
  when the upper z bound is the largest \<^verbatim>\<open>int\<close>, a null pointer is
  dereferenced (the slice has no scalars, or \<^verbatim>\<open>GetScalarPointer(0, 0, z)\<close> is outside
  the extent and returns null), or a \<^verbatim>\<open>memcpy\<close> leaves its source or its destination.
\<close>

datatype append_fault =
  NoScalars
  | BadAlloc
  | SignedOverflow
  | NullPointer
  | CopyOutOfBounds nat nat

text \<open>A product of sizes assigned to an \<^verbatim>\<open>int\<close> keeps its low 32 bits.\<close>

definition to_c_int :: "nat \<Rightarrow> int" where
  "to_c_int n = sint (word_of_nat n :: 32 word)"

text \<open>
  \<^verbatim>\<open>GetScalarPointer(x, y, z)\<close>: the byte offset of that point in the scalars, or null
  when the point is outside the extent.
\<close>

definition GetScalarPointer :: "int \<Rightarrow> int \<Rightarrow> int \<Rightarrow> vtkImageData \<Rightarrow> vtkDataArray \<Rightarrow> nat option" where
  "GetScalarPointer x y z img scalars =
     (let e = Extent img in
      if x < x0 e \<or> x1 e < x \<or> y < y0 e \<or> y1 e < y \<or> z < z0 e \<or> z1 e < z then None
      else Some ((nat (z - z0 e) * nat (y1 e - y0 e + 1) * nat (x1 e - x0 e + 1)
                  + nat (y - y0 e) * nat (x1 e - x0 e + 1) + nat (x - x0 e))
                 * NumberOfComponents scalars * ElementSize scalars))"

text \<open>
  \<^verbatim>\<open>AllocateScalars\<close> gives the active scalars a storage for the current extent; what the
  new memory holds is not determined by the program and is the argument \<open>fresh\<close>.
\<close>

definition AllocateScalars :: "(nat \<Rightarrow> byte) \<Rightarrow> nat \<Rightarrow> vtkImageData \<Rightarrow> vtkImageData" where
  "AllocateScalars fresh i img =
     (let scalars = PointData img ! i;
          n = NumberOfPoints (Extent img) * NumberOfComponents scalars * ElementSize scalars
      in img\<lparr>PointData := (PointData img)[i := scalars\<lparr>Storage := map fresh [0..<n]\<rparr>]\<rparr>)"

definition write_bytes :: "nat \<Rightarrow> byte list \<Rightarrow> byte list \<Rightarrow> byte list" where
  "write_bytes offset bytes storage =
     take offset storage @ bytes @ drop (offset + length bytes) storage"

definition appendImageData ::
  "(nat \<Rightarrow> byte) \<Rightarrow> vtkImageData \<Rightarrow> vtkImageData \<Rightarrow> nat \<Rightarrow> append_fault + vtkImageData" where
  "appendImageData fresh data0 slice_image i =
     (let dataArray = PointData data0 ! i;
          sizeofT = ElementSize dataArray;
          bufferSize = to_c_int (GetNumberOfTuples dataArray * NumberOfComponents dataArray * sizeofT)
      in if bufferSize < 0 then Inl BadAlloc
         else
           let buffer = take (nat bufferSize) (Storage dataArray);
               extents = (Extent data0)\<lparr>z1 := z1 (Extent data0) + 1\<rparr>;
               data1 = AllocateScalars fresh i (data0\<lparr>Extent := extents\<rparr>);
               new_storage = Storage (PointData data1 ! i)
           in if 2 ^ 31 - 1 \<le> z1 (Extent data0) then Inl SignedOverflow
              else if length new_storage < nat bufferSize
              then Inl (CopyOutOfBounds 0 (nat bufferSize))
              else
                let storage1 = write_bytes 0 buffer new_storage in
                case GetScalarPointer 0 0 (z1 extents) data1 (PointData data1 ! i) of
                  None \<Rightarrow> Inl NullPointer
                | Some imagePtr \<Rightarrow>
                    (case GetScalars slice_image of
                       None \<Rightarrow> Inl NullPointer
                     | Some sliceArray \<Rightarrow>
                         let sliceSize = to_c_int (GetNumberOfTuples sliceArray
                                           * NumberOfComponents sliceArray * sizeofT)
                         in if sliceSize < 0 \<or> length (Storage sliceArray) < nat sliceSize
                               \<or> length storage1 < imagePtr + nat sliceSize
                            then Inl (CopyOutOfBounds imagePtr (nat sliceSize))
                            else Inr (data1\<lparr>PointData := (PointData data1)
                                   [i := (PointData data1 ! i)\<lparr>Storage :=
                                      write_bytes imagePtr (take (nat sliceSize) (Storage sliceArray))
                                        storage1\<rparr>]\<rparr>)))"

definition extent_list :: "extent \<Rightarrow> int list" where
  "extent_list e = [x0 e, x1 e, y0 e, y1 e, z0 e, z1 e]"

text \<open>The first of the four x and y bounds in which the two extents differ, if any.\<close>

fun first_mismatch :: "int list \<Rightarrow> int list \<Rightarrow> (int \<times> int) option" where
  "first_mismatch (a # as) (b # bs) = (if a \<noteq> b then Some (a, b) else first_mismatch as bs)"
| "first_mismatch _ _ = None"

definition appendSlice ::
  "(nat \<Rightarrow> byte) \<Rightarrow> vtkImageData option \<Rightarrow> DataSource \<Rightarrow> append_fault + bool \<times> DataSource" where
  "appendSlice fresh slice_image s =
     (case slice_image of
        None \<Rightarrow> Inr (False, s)
      | Some sl \<Rightarrow>
          let data0 = ProducerOutput s in
          case first_mismatch (take 4 (extent_list (Extent data0))) (take 4 (extent_list (Extent sl))) of
            Some (a, b) \<Rightarrow> Inr (False, qWarning (ExtentMismatch a b) s)
          | None \<Rightarrow>
              (case ActiveScalarsIndex data0 of
                 None \<Rightarrow> Inl NoScalars
               | Some i \<Rightarrow>
                   if length (PointData data0) \<le> i then Inl NoScalars
                   else case appendImageData fresh data0 sl i of
                     Inl f \<Rightarrow> Inl f
                   | Inr data1 \<Rightarrow>
                       Inr (True, emit pipelineExecute (emit dataPropertiesChanged
                                    (emit dataChanged (s\<lparr>ProducerOutput := data1\<rparr>))))))"

subsection \<open>Labels, units and display placement\<close>

definition fileName :: "DataSource \<Rightarrow> string" where
  "fileName s = (case m_json_fileNames s of Some (f # fs) \<Rightarrow> f | _ \<Rightarrow> [])"

text \<open>
  \<^verbatim>\<open>QFileInfo(f).baseName()\<close>: the file name without its path, up to its first dot.
\<close>

definition baseName :: "string \<Rightarrow> string" where
  "baseName f =
     takeWhile (\<lambda>c. c \<noteq> CHR ''.'') (rev (takeWhile (\<lambda>c. c \<noteq> CHR ''/'') (rev f)))"

definition label :: "DataSource \<Rightarrow> string" where
  "label s = (case m_json_label s of Some l \<Rightarrow> l | None \<Rightarrow> baseName (fileName s))"

definition setLabel :: "string \<Rightarrow> DataSource \<Rightarrow> DataSource" where
  "setLabel l s = s\<lparr>m_json_label := Some l\<rparr>"

definition setSpacing :: "real list \<Rightarrow> bool \<Rightarrow> DataSource \<Rightarrow> DataSource" where
  "setSpacing spacing markModified s =
     (let s1 = (if markModified then s\<lparr>UnitsModified := True\<rparr> else s) in
      emit dataPropertiesChanged
        (s1\<lparr>ProducerOutput := (ProducerOutput s1)\<lparr>Spacing := take 3 spacing\<rparr>\<rparr>))"

text \<open>
  \<^verbatim>\<open>setUnits\<close> creates the units array on first use, adds it to the field data of the
  output, and writes the unit to its three entries. The array is one object that
  \<^verbatim>\<open>Internals\<close> and the field data share from then on: every later call changes the
  units of every image that holds it.
\<close>

definition setUnits :: "string \<Rightarrow> bool \<Rightarrow> DataSource \<Rightarrow> DataSource" where
  "setUnits u markModified s =
     (let s1 = (if markModified then s\<lparr>UnitsModified := True\<rparr> else s);
          s2 = (case Units s1 of
                  None \<Rightarrow> s1\<lparr>ProducerOutput := (ProducerOutput s1)\<lparr>FieldData :=
                             (FieldData (ProducerOutput s1))\<lparr>units := Some UnitsOfDataSource\<rparr>\<rparr>\<rparr>
                | Some _ \<Rightarrow> s1)
      in emit dataPropertiesChanged (s2\<lparr>Units := Some [u, u, u]\<rparr>))"

definition setDisplayPosition :: "real list \<Rightarrow> DataSource \<Rightarrow> DataSource" where
  "setDisplayPosition newPosition s =
     emit displayPositionChanged (s\<lparr>DisplayPosition := take 3 newPosition\<rparr>)"

definition setDisplayOrientation :: "real list \<Rightarrow> DataSource \<Rightarrow> DataSource" where
  "setDisplayOrientation newOrientation s =
     emit displayOrientationChanged (s\<lparr>DisplayOrientation := take 3 newOrientation\<rparr>)"

definition addOperator :: "Operator \<Rightarrow> DataSource \<Rightarrow> DataSource" where
  "addOperator op s = emit operatorAdded (s\<lparr>Operators := Operators s @ [op]\<rparr>)"

subsection \<open>Serialization\<close>

text \<open>
  The JSON document, by its keys: a key that is absent is \<open>None\<close>. \<^verbatim>\<open>scalarsRename\<close> is a
  \<^verbatim>\<open>QJsonObject\<close>, whose entries are kept and iterated in the order of their keys. The
  keys for the colour maps, \<^verbatim>\<open>id\<close> and \<^verbatim>\<open>active\<close> are left out with the state they
  describe.
\<close>

record Document =
  json_label :: "string option"
  json_reader_fileNames :: "string list option"
  json_subsampleSettings :: "(int list \<times> int list) option"
  json_spacing :: "real list option"
  json_units :: "string option"
  json_origin :: "real list option"
  json_orientation :: "real list option"
  json_activeScalars :: "string option"
  json_scalarsRename :: "(string \<times> string) list option"
  json_operators :: "Operator list option"
  json_modules :: "Module list option"

definition wasSubsampled :: "DataSource \<Rightarrow> bool" where
  "wasSubsampled s =
     (case was_subsampled (FieldData (ProducerOutput s)) of Some b \<Rightarrow> b | None \<Rightarrow> False)"

definition subsampleStrides :: "DataSource \<Rightarrow> int list" where
  "subsampleStrides s =
     (case subsample_strides (FieldData (ProducerOutput s)) of
        Some st \<Rightarrow> st | None \<Rightarrow> [1, 1, 1])"

definition subsampleVolumeBounds :: "DataSource \<Rightarrow> int list" where
  "subsampleVolumeBounds s =
     (case subsample_volume_bounds (FieldData (ProducerOutput s)) of
        Some bs \<Rightarrow> bs | None \<Rightarrow> [-1, -1, -1, -1, -1, -1])"

definition serialize :: "DataSource \<Rightarrow> Document" where
  "serialize s =
     \<lparr>json_label = Some (label s),
      json_reader_fileNames = m_json_fileNames s,
      json_subsampleSettings =
        (if wasSubsampled s then Some (subsampleStrides s, subsampleVolumeBounds s) else None),
      json_spacing = (if UnitsModified s then Some (Spacing (ProducerOutput s)) else None),
      json_units =
        (if UnitsModified s
         then (case Units s of None \<Rightarrow> None | Some u \<Rightarrow> Some (case u of [] \<Rightarrow> [] | v # vs \<Rightarrow> v))
         else None),
      json_origin = Some (DisplayPosition s),
      json_orientation = Some (DisplayOrientation s),
      json_activeScalars = Some (activeScalars s),
      json_scalarsRename =
        Some (fold (\<lambda>(current, original) scalarsRename. qmap_insert original current scalarsRename)
                (CurrentToOriginal s) []),
      json_operators = (if Operators s = [] then None else Some (Operators s)),
      json_modules = (if Modules s = [] then None else Some (Modules s))\<rparr>"

text \<open>
  \<^verbatim>\<open>deserialize\<close> reads the keys in the order of the code. The two arguments before the
  document stand for what this file does not hold: the default of the \<^verbatim>\<open>markModified\<close>
  parameter of \<^verbatim>\<open>setSpacing\<close> and \<^verbatim>\<open>setUnits\<close> (declared in the header), and the answer of
  \<^verbatim>\<open>ModuleManager::executePipelinesOnLoad()\<close>. A module entry is created and added; an
  operator entry is added when its factory and its own \<^verbatim>\<open>deserialize\<close> accept it. The
  restoring of a child data source after the first run of the pipeline is outside the
  model.
\<close>

definition restore_operators :: "bool \<Rightarrow> Operator list \<Rightarrow> DataSource \<Rightarrow> DataSource" where
  "restore_operators executePipelinesOnLoad ops s =
     (let s1 = emit pipelinePause s;
          s2 = fold (\<lambda>op t. if operator_restorable op then addOperator op t else t) ops s1
      in if executePipelinesOnLoad then emit pipelineExecute (emit pipelineResume s2) else s2)"

definition deserialize :: "bool \<Rightarrow> bool \<Rightarrow> Document \<Rightarrow> DataSource \<Rightarrow> DataSource" where
  "deserialize markModified executePipelinesOnLoad state s =
     (let s1 = (case json_label state of Some l \<Rightarrow> setLabel l s | None \<Rightarrow> s);
          s2 = (case json_scalarsRename state of
                  Some scalarsRename \<Rightarrow>
                    fold (\<lambda>(key, val) t. renameScalarsArray key val t) scalarsRename s1
                | None \<Rightarrow> s1);
          s3 = (case json_activeScalars state of
                  Some name \<Rightarrow> setActiveScalars name s2 | None \<Rightarrow> s2);
          s4 = (case json_spacing state of
                  Some spacing \<Rightarrow> setSpacing spacing markModified s3 | None \<Rightarrow> s3);
          s5 = (case json_units state of Some u \<Rightarrow> setUnits u markModified s4 | None \<Rightarrow> s4);
          s6 = (case json_origin state of
                  Some origin \<Rightarrow> setDisplayPosition origin s5 | None \<Rightarrow> s5);
          s7 = (case json_orientation state of
                  Some orientation \<Rightarrow> setDisplayOrientation orientation s6 | None \<Rightarrow> s6);
          s8 = (case json_modules state of
                  Some moduleArray \<Rightarrow> s7\<lparr>Modules := Modules s7 @ moduleArray\<rparr> | None \<Rightarrow> s7)
      in case json_operators state of
           Some operatorArray \<Rightarrow> restore_operators executePipelinesOnLoad operatorArray s8
         | None \<Rightarrow> s8)"

subsection \<open>Example: a palette image\<close>

text \<open>
  Whether \<^verbatim>\<open>GetColor\<close> answers from its cache.
\<close>

definition cached :: "OMETiffReader \<Rightarrow> bool" where
  "cached r = (ColorRed r \<noteq> None \<and> ColorGreen r \<noteq> None \<and> ColorBlue r \<noteq> None \<and> 0 < TotalColors r)"

text \<open>
  A palette file with a colour table that is not grey, and a reader opened on it whose
  output scalar type is \<open>T\<close>.
\<close>

definition palette_file :: InternalImage where
  "palette_file =
     \<lparr>Width = 4, Height = 4, NumberOfPages = 1, SamplesPerPixel = 1, BitsPerSample = 8,
      Photometrics = PHOTOMETRIC_PALETTE, Orientation = ORIENTATION_TOPLEFT,
      TileWidth = 0, TileHeight = 0, PhotometricTag = Some PHOTOMETRIC_PALETTE,
      ColormapTag = Some (\<lambda>i. 0x1200 + of_nat i, \<lambda>i. 0x3400 + of_nat i, \<lambda>i. 0x5600 + of_nat i),
      Samples = (\<lambda>row j. 5)\<rparr>"

definition palette_reader :: "ScalarType \<Rightarrow> OMETiffReader" where
  "palette_reader T =
     \<lparr>InternalImage = palette_file, ImageFormat = NOFORMAT, TotalColors = -1,
      ColorRed = None, ColorGreen = None, ColorBlue = None, DataScalarType = T, Errors = []\<rparr>"

subsection \<open>Example: small data sources\<close>

text \<open>
  An image of two voxels in one layer whose arrays, one byte per voxel, have the given
  names; a data source constructed on such an image; and the same data source with a
  time series of two steps.
\<close>

definition no_field_data :: vtkFieldData where
  "no_field_data =
     \<lparr>tomviz_data_source_type = None, tilt_angles = None, units = None, was_subsampled = None,
      subsample_strides = None, subsample_volume_bounds = None\<rparr>"

definition example_array :: "string \<Rightarrow> byte list \<Rightarrow> vtkDataArray" where
  "example_array name bytes =
     \<lparr>ArrayName = name, NumberOfComponents = 1, ElementSize = 1, Storage = bytes\<rparr>"

definition example_image :: "string list \<Rightarrow> vtkImageData" where
  "example_image names =
     \<lparr>Extent = \<lparr>x0 = 0, x1 = 1, y0 = 0, y1 = 0, z0 = 0, z1 = 0\<rparr>, Spacing = [1, 1, 1],
      PointData = map (\<lambda>name. example_array name [1, 2]) names,
      ActiveScalarsIndex = None, FieldData = no_field_data\<rparr>"

definition example_source :: DataSource where
  "example_source = init (example_image [''a'']) Volume Saved"

definition series_source :: DataSource where
  "series_source =
     example_source\<lparr>timeSeriesSteps :=
       [OwnImage (example_image [''a'']), OwnImage (example_image [''b''])]\<rparr>"

text \<open>
  A data source on an image with two arrays, and one whose data was replaced through
  \<^verbatim>\<open>copyData\<close> by an image with an array of another name.
\<close>

definition two_array_source :: DataSource where
  "two_array_source = init (example_image [''a'', ''c'']) Volume Saved"

definition copied_source :: DataSource where
  "copied_source =
     copyData ((example_image [''a''])\<lparr>ActiveScalarsIndex := Some 0\<rparr>)
       (init (example_image [''x'']) Volume Saved)"

subsection \<open>Slices that fit a volume\<close>

text \<open>
  The scalars of an image fit it when they hold one tuple per point of its extent. A
  slice is a layer of a volume when both have fitting scalars of the same component count
  and scalar size, and the slice has the x and y extent of the volume and a single z
  layer.

  \<^verbatim>\<open>appendImageData\<close> addresses the new layer by \<^verbatim>\<open>GetScalarPointer(0, 0, z)\<close> and counts
  bytes and the z bound in \<^verbatim>\<open>int\<close>s. \<open>copy_in_range\<close> holds where that is right: the first
  point of a layer of the volume is \<open>(0, 0)\<close>, the grown extent has the layer \<open>z1 + 1\<close>,
  which is an \<^verbatim>\<open>int\<close>, and the bytes of the volume and those of the slice are each fewer
  than \<open>2 ^ 31\<close>.
\<close>

definition scalars_fit :: "vtkImageData \<Rightarrow> vtkDataArray \<Rightarrow> bool" where
  "scalars_fit img a =
     (0 < NumberOfComponents a \<and> 0 < ElementSize a
      \<and> length (Storage a) = NumberOfPoints (Extent img) * NumberOfComponents a * ElementSize a)"

definition xy_extent :: "vtkImageData \<Rightarrow> int \<times> int \<times> int \<times> int" where
  "xy_extent img = (x0 (Extent img), x1 (Extent img), y0 (Extent img), y1 (Extent img))"

definition layer_of :: "vtkImageData \<Rightarrow> vtkDataArray \<Rightarrow> vtkImageData \<Rightarrow> vtkDataArray \<Rightarrow> bool" where
  "layer_of data0 a sl b =
     (scalars_fit data0 a \<and> scalars_fit sl b
      \<and> NumberOfComponents b = NumberOfComponents a \<and> ElementSize b = ElementSize a
      \<and> xy_extent sl = xy_extent data0
      \<and> z0 (Extent sl) = z1 (Extent sl))"

definition copy_in_range :: "vtkImageData \<Rightarrow> vtkDataArray \<Rightarrow> vtkDataArray \<Rightarrow> bool" where
  "copy_in_range data0 a b =
     (x0 (Extent data0) = 0 \<and> y0 (Extent data0) = 0
      \<and> 0 \<le> x1 (Extent data0) \<and> 0 \<le> y1 (Extent data0)
      \<and> z0 (Extent data0) \<le> z1 (Extent data0) + 1 \<and> z1 (Extent data0) + 1 < 2 ^ 31
      \<and> length (Storage a) < 2 ^ 31 \<and> length (Storage b) < 2 ^ 31)"

text \<open>
  Examples: memory that is zero when allocated; one-layer slices of two voxels with
  one-byte and with two-byte scalars; a volume and a slice whose x extent starts at 1.
  \<open>storage_after\<close> reads the storage of the arrays from the result of \<^verbatim>\<open>appendSlice\<close>.
\<close>

definition zeroed :: "nat \<Rightarrow> byte" where
  "zeroed k = 0"

definition slice_image :: "vtkDataArray \<Rightarrow> vtkImageData" where
  "slice_image a =
     \<lparr>Extent = \<lparr>x0 = 0, x1 = 1, y0 = 0, y1 = 0, z0 = 0, z1 = 0\<rparr>, Spacing = [1, 1, 1],
      PointData = [a], ActiveScalarsIndex = Some 0, FieldData = no_field_data\<rparr>"

definition byte_slice :: vtkImageData where
  "byte_slice = slice_image (example_array ''a'' [3, 4])"

definition short_slice :: vtkImageData where
  "short_slice = slice_image
     \<lparr>ArrayName = ''a'', NumberOfComponents = 1, ElementSize = 2, Storage = [3, 4, 5, 6]\<rparr>"

definition shifted_source :: DataSource where
  "shifted_source =
     init ((example_image [''a''])\<lparr>Extent := \<lparr>x0 = 1, x1 = 2, y0 = 0, y1 = 0, z0 = 0, z1 = 0\<rparr>\<rparr>)
       Volume Saved"

definition shifted_slice :: vtkImageData where
  "shifted_slice = byte_slice\<lparr>Extent := \<lparr>x0 = 1, x1 = 2, y0 = 0, y1 = 0, z0 = 0, z1 = 0\<rparr>\<rparr>"

definition storage_after :: "append_fault + bool \<times> DataSource \<Rightarrow> append_fault + bool \<times> byte list list" where
  "storage_after r =
     (case r of Inl f \<Rightarrow> Inl f
      | Inr (ok, s') \<Rightarrow> Inr (ok, map Storage (PointData (ProducerOutput s'))))"

subsection \<open>Tilt angles that fit the volume\<close>

text \<open>
  The length of the z extent, \<open>z1 - z0 + 1\<close>, and the invariant of a tilt series: the
  tilt angle array exists and has that many slots. \<open>tilt_source\<close> is a tilt series of one
  layer with the angle 30.
\<close>

definition z_length :: "vtkImageData \<Rightarrow> int" where
  "z_length img = z1 (Extent img) - z0 (Extent img) + 1"

definition tilt_angles_fit :: "DataSource \<Rightarrow> bool" where
  "tilt_angles_fit s =
     (case tilt_angles (FieldData (ProducerOutput s)) of
        None \<Rightarrow> False
      | Some array \<Rightarrow> int (length array) = z_length (ProducerOutput s))"

definition tilt_source :: DataSource where
  "tilt_source = setTiltAngles [30] (setType TiltSeries example_source)"

subsection \<open>What a document restores\<close>

text \<open>
  The part of the state that the label, the names of the arrays, the active scalars and
  the rename map are read from; and a data source with a renamed array.
\<close>

definition tracked :: "DataSource \<Rightarrow> string option \<times> vtkDataArray list \<times> nat option \<times> (string \<times> string) list" where
  "tracked s = (m_json_label s, PointData (ProducerOutput s), ActiveScalarsIndex (ProducerOutput s),
                CurrentToOriginal s)"


text \<open>A data source whose two arrays have exchanged their names, by way of a third name.\<close>

definition swapped_source :: DataSource where
  "swapped_source =
     renameScalarsArray ''t'' ''c''
       (renameScalarsArray ''c'' ''a'' (renameScalarsArray ''a'' ''t'' two_array_source))"

(*PROPERTIES*)
section \<open>Properties of the reader\<close>

subsection \<open>The row mapping is an involution\<close>

lemma sint_flip_row:
  fixes row height :: "32 word"
  assumes "0 \<le>s row" "row <s height"
  shows "sint (height - row - 1) = sint height - sint row - 1"
proof -
  have a: "0 \<le> sint row" "sint row < sint height"
    using assms by (simp_all add: word_sle_eq word_sless_alt)
  have b: "sint height < 2 ^ 31" "- (2 ^ 31) \<le> sint height"
    using sint_lt [of height] sint_ge [of height] by simp_all
  have c: "sint (height - row) = sint height - sint row"
    using a b by (simp add: sint_word_ariths signed_take_bit_int_eq_self)
  have "sint (height - row - 1) = signed_take_bit 31 (sint (height - row) - 1)"
    by (simp add: sint_word_ariths)
  also have "\<dots> = sint height - sint row - 1"
    unfolding c using a b by (intro signed_take_bit_int_eq_self) simp_all
  finally show ?thesis .
qed

lemma GetFileRow_in_rows:
  "row \<in> image_rows height \<Longrightarrow> GetFileRow row height flp \<in> image_rows height"
  by (cases flp) (simp_all add: image_rows_def word_sle_eq word_sless_alt sint_flip_row)

lemma GetFileRow_twice: "GetFileRow (GetFileRow row height flp) height flp = row"
  by (cases flp) simp_all

text \<open>
  Claim C10. For every row of the image, that is every \<open>row\<close> with \<open>0 \<le> row < height\<close>
  as C \<^verbatim>\<open>int\<close>s, and for either flip setting, mapping the row to its file row and the
  file row back to an image row gives the row again; and the mapping to file rows is a
  bijection of the rows of the image onto themselves.
\<close>

theorem GetFileRow_involution:
  "(\<forall>row \<in> image_rows height. GetImageRow (GetFileRow row height flp) height flp = row)
   \<and> bij_betw (\<lambda>row. GetFileRow row height flp) (image_rows height) (image_rows height)"
proof
  show "\<forall>row \<in> image_rows height. GetImageRow (GetFileRow row height flp) height flp = row"
    by (simp add: GetImageRow_def GetFileRow_twice)
  show "bij_betw (\<lambda>row. GetFileRow row height flp) (image_rows height) (image_rows height)"
    by (rule bij_betw_byWitness [where f' = "\<lambda>row. GetFileRow row height flp"])
       (auto simp: GetFileRow_twice GetFileRow_in_rows)
qed

theorem GetFileRow_involution_witness:
  "(3 :: c_int) \<in> image_rows 10 \<and> GetFileRow 3 10 FlipTrue = 6
   \<and> GetImageRow (GetFileRow 3 10 FlipTrue) 10 FlipTrue = 3"
proof -
  have h: "(3 :: c_int) \<in> image_rows 10"
    by (simp add: image_rows_def word_sle_eq word_sless_alt)
  from GetFileRow_involution [of 10 FlipTrue] h
  have "GetImageRow (GetFileRow 3 10 FlipTrue) 10 FlipTrue = 3" by blast
  with h show ?thesis by simp
qed

subsection \<open>Palette colours\<close>

lemma GetColorFromTag_fields:
  "DataScalarType (snd (GetColorFromTag i r)) = DataScalarType r"
  "InternalImage (snd (GetColorFromTag i r)) = InternalImage r"
  by (simp_all add: GetColorFromTag_def vtkError_def Let_def split: option.split prod.split)

lemma GetColor_fields:
  "DataScalarType (snd (GetColor i r)) = DataScalarType r"
  "InternalImage (snd (GetColor i r)) = InternalImage r"
  by (simp_all add: GetColor_def GetColorFromTag_fields vtkError_def split: option.split prod.split)

lemma GetColor_uncached:
  "\<not> cached r \<Longrightarrow> GetColor i r =
     (if i < 0 then ((0, 0, 0), vtkError ColorIndexNegative r) else GetColorFromTag i r)"
  by (auto simp: GetColor_def cached_def split: option.split)

lemma GetColor_cached:
  "ColorRed r = Some a \<Longrightarrow> ColorGreen r = Some b \<Longrightarrow> ColorBlue r = Some c \<Longrightarrow> 0 < TotalColors r
   \<Longrightarrow> GetColor i r =
     (if i < 0 then ((0, 0, 0), vtkError ColorIndexNegative r)
      else if TotalColors r \<le> i then ((0, 0, 0), vtkError (ColorIndexTooLarge (TotalColors r)) r)
      else ((a (nat i), b (nat i), c (nat i)), r))"
  by (simp add: GetColor_def)

lemma cached_vtkError [simp]: "cached (vtkError e r) = cached r"
  by (simp add: cached_def vtkError_def)

lemma vtkError_fields [simp]:
  "InternalImage (vtkError e r) = InternalImage r"
  "TotalColors (vtkError e r) = TotalColors r"
  "ColorRed (vtkError e r) = ColorRed r"
  "ColorGreen (vtkError e r) = ColorGreen r"
  "ColorBlue (vtkError e r) = ColorBlue r"
  by (simp_all add: vtkError_def)

lemma GetColorFromTag_again:
  assumes "\<not> cached r" "0 \<le> i" "GetColorFromTag i r = (c, r1)"
  shows "fst (GetColor i r1) = c"
proof -
  let ?img = "InternalImage r"
  define np where "np \<longleftrightarrow> PhotometricTag ?img = None \<and> Photometrics ?img \<noteq> PHOTOMETRIC_PALETTE"
  define ok where "ok \<longleftrightarrow> BitsPerSample ?img \<in> {1, 2, 4, 8, 16}"
  define tag where "tag = ColormapTag ?img"
  have "tag = None \<or> (\<exists>ro go bo. tag = Some (ro, go, bo))"
    by (cases tag) auto
  then consider (notpal) "np" | (bits) "\<not> np" "\<not> ok"
    | (nomap) "\<not> np" "ok" "tag = None"
    | (map) ro go bo where "\<not> np" "ok" "tag = Some (ro, go, bo)"
    by blast
  then show ?thesis
  proof cases
    case notpal
    note notpal = this [unfolded np_def ok_def tag_def]
    then have "c = (0, 0, 0)" "r1 = vtkError NotAPaletteImage r"
      using assms(3) by (auto simp: GetColorFromTag_def Let_def)
    then show ?thesis using assms(1,2) notpal
      by (simp add: GetColor_uncached GetColorFromTag_def Let_def)
  next
    case bits
    note bits = this [unfolded np_def ok_def tag_def]
    then have "c = (0, 0, 0)" "r1 = vtkError (UnsupportedBitsPerSample (BitsPerSample ?img)) r"
      using assms(3) by (auto simp: GetColorFromTag_def Let_def)
    then show ?thesis using assms(1,2) bits
      by (simp add: GetColor_uncached GetColorFromTag_def Let_def)
  next
    case nomap
    note nomap = this [unfolded np_def ok_def tag_def]
    then have "c = (0, 0, 0)" "r1 = vtkError MissingColormap r"
      using assms(3) by (auto simp: GetColorFromTag_def Let_def)
    then show ?thesis using assms(1,2) nomap
      by (simp add: GetColor_uncached GetColorFromTag_def Let_def)
  next
    case map
    note map = this [unfolded np_def ok_def tag_def]
    let ?n = "2 ^ unat (BitsPerSample ?img) :: int"
    show ?thesis
    proof (cases "?n \<le> i")
      case True
      then have c: "c = (0, 0, 0)"
        and r1: "r1 = vtkError (ColorIndexTooLarge ?n) (r\<lparr>TotalColors := ?n\<rparr>)"
        using assms(3) map by (auto simp: GetColorFromTag_def Let_def)
      show ?thesis
      proof (cases "cached r1")
        case False
        then show ?thesis using c r1 True map assms(2)
          by (simp add: GetColor_uncached GetColorFromTag_def Let_def)
      next
        case True
        then obtain a b d where "ColorRed r1 = Some a" "ColorGreen r1 = Some b" "ColorBlue r1 = Some d"
          "0 < TotalColors r1" by (auto simp: cached_def)
        moreover have "TotalColors r1 = ?n" using r1 by simp
        ultimately show ?thesis using c \<open>?n \<le> i\<close> assms(2)
          by (simp add: GetColor_cached)
      qed
    next
      case False
      then have c: "c = (ro (nat i), go (nat i), bo (nat i))"
        and r1: "r1 = r\<lparr>TotalColors := ?n, ColorRed := Some ro, ColorGreen := Some go,
                         ColorBlue := Some bo\<rparr>"
        using assms(3) map by (auto simp: GetColorFromTag_def Let_def)
      have "GetColor i r1 = ((ro (nat i), go (nat i), bo (nat i)), r1)"
        using False assms(2) r1 by (subst GetColor_cached [of r1 ro go bo]) simp_all
      then show ?thesis using c by simp
    qed
  qed
qed

lemma GetColor_again:
  assumes "GetColor i r = (c, r1)"
  shows "fst (GetColor i r1) = c"
proof (cases "i < 0")
  case True
  then show ?thesis using assms by (auto simp: GetColor_def)
next
  case nonneg: False
  show ?thesis
  proof (cases "cached r")
    case False
    then show ?thesis using assms nonneg GetColorFromTag_again [of r i c r1]
      by (simp add: GetColor_uncached)
  next
    case True
    then obtain a b d where ab: "ColorRed r = Some a" "ColorGreen r = Some b" "ColorBlue r = Some d"
      "0 < TotalColors r" by (auto simp: cached_def)
    show ?thesis
    proof (cases "TotalColors r \<le> i")
      case True
      then have "c = (0, 0, 0)" "r1 = vtkError (ColorIndexTooLarge (TotalColors r)) r"
        using assms nonneg ab by (simp_all add: GetColor_cached)
      then show ?thesis using True nonneg ab
        by (simp add: GetColor_cached [of _ a b d])
    next
      case False
      then show ?thesis using assms nonneg ab by (simp add: GetColor_cached)
    qed
  qed
qed


lemma scan_palette_DataScalarType: "DataScalarType (snd (scan_palette n cc r)) = DataScalarType r"
proof (induction n arbitrary: cc r)
  case 0
  show ?case by simp
next
  case (Suc n)
  obtain red green blue r1 where g: "GetColor cc r = ((red, green, blue), r1)"
    by (metis prod.exhaust)
  then have "DataScalarType r1 = DataScalarType r"
    using GetColor_fields(1) [of cc r] by simp
  then show ?case using g Suc.IH [of "cc + 1" r1] by simp
qed

lemma GetFormat_DataScalarType: "DataScalarType (snd (GetFormat r)) = DataScalarType r"
  using scan_palette_DataScalarType [of 256 0 r]
  by (auto simp: GetFormat_def Let_def split: prod.split)

text \<open>
  Claim C9, as amended. For every pixel of a \<^verbatim>\<open>PALETTE_RGB\<close> image, the scalars that
  \<^verbatim>\<open>EvaluateImageAt\<close> leaves in \<^verbatim>\<open>out[0..2]\<close> are the red, green and blue entries of
  the colour table, shifted left by 8 bits exactly when the output scalar type is
  \<^verbatim>\<open>VTK_SHORT\<close> or \<^verbatim>\<open>VTK_UNSIGNED_SHORT\<close>, and shifted right by 8 bits for every
  other output type, converted to the output type.
\<close>

theorem EvaluateImageAt_palette_shift:
  assumes "GetFormat r = (PALETTE_RGB, r0)"
    and "GetColor in_value r0 = ((red, green, blue), r1)"
  shows "let stores = fst (EvaluateImageAt r in_scalar in_value source);
             T = DataScalarType r;
             shifted = (\<lambda>c. if T = VTK_SHORT \<or> T = VTK_UNSIGNED_SHORT
                             then uint c * 2 ^ 8 else uint c div 2 ^ 8)
         in stored_scalar stores 0 = Some (convert_to T (shifted red))
          \<and> stored_scalar stores 1 = Some (convert_to T (shifted green))
          \<and> stored_scalar stores 2 = Some (convert_to T (shifted blue))"
proof -
  have T: "DataScalarType r0 = DataScalarType r"
    using GetFormat_DataScalarType [of r] assms(1) by simp
  obtain c2 r2 where g2: "GetColor in_value r1 = (c2, r2)" by (cases "GetColor in_value r1")
  have c2: "c2 = (red, green, blue)"
    using GetColor_again [OF assms(2)] g2 by simp
  show ?thesis
    using assms T g2 c2 by (simp add: EvaluateImageAt_def Let_def)
qed

lemma palette_reader_scan:
  "scan_palette (Suc n) 0 (palette_reader T) =
     (PALETTE_RGB, (palette_reader T)\<lparr>TotalColors := 256,
        ColorRed := Some (\<lambda>i. 0x1200 + of_nat i), ColorGreen := Some (\<lambda>i. 0x3400 + of_nat i),
        ColorBlue := Some (\<lambda>i. 0x5600 + of_nat i)\<rparr>)"
  by (simp add: palette_reader_def palette_file_def PHOTOMETRIC_PALETTE_def
      GetColor_def GetColorFromTag_def Let_def)

lemma palette_reader_format:
  "GetFormat (palette_reader T) =
     (PALETTE_RGB, (palette_reader T)\<lparr>TotalColors := 256,
        ColorRed := Some (\<lambda>i. 0x1200 + of_nat i), ColorGreen := Some (\<lambda>i. 0x3400 + of_nat i),
        ColorBlue := Some (\<lambda>i. 0x5600 + of_nat i), ImageFormat := PALETTE_RGB\<rparr>)"
proof -
  have n: "(256 :: nat) = Suc 255" by simp
  have p: "Photometrics (InternalImage (palette_reader T)) = PHOTOMETRIC_PALETTE"
    "ImageFormat (palette_reader T) = NOFORMAT"
    by (simp_all add: palette_reader_def palette_file_def)
  show ?thesis
    unfolding GetFormat_def n palette_reader_scan p Let_def
    by (simp add: PHOTOMETRIC_PALETTE_def PHOTOMETRIC_RGB_def PHOTOMETRIC_YCBCR_def
        PHOTOMETRIC_MINISWHITE_def PHOTOMETRIC_MINISBLACK_def)
qed

lemma palette_reader_color:
  "GetColor 5 ((palette_reader T)\<lparr>TotalColors := 256,
        ColorRed := Some (\<lambda>i. 0x1200 + of_nat i), ColorGreen := Some (\<lambda>i. 0x3400 + of_nat i),
        ColorBlue := Some (\<lambda>i. 0x5600 + of_nat i), ImageFormat := PALETTE_RGB\<rparr>)
   = ((0x1205, 0x3405, 0x5605), (palette_reader T)\<lparr>TotalColors := 256,
        ColorRed := Some (\<lambda>i. 0x1200 + of_nat i), ColorGreen := Some (\<lambda>i. 0x3400 + of_nat i),
        ColorBlue := Some (\<lambda>i. 0x5600 + of_nat i), ImageFormat := PALETTE_RGB\<rparr>)"
  by (simp add: GetColor_def)

lemma palette_reader_type: "DataScalarType (palette_reader T) = T"
  by (simp add: palette_reader_def)

theorem EvaluateImageAt_palette_shift_witness:
  "stored_scalar (fst (EvaluateImageAt (palette_reader VTK_UNSIGNED_SHORT) 5 5 (\<lambda>k. 5))) 0 = Some 0x0500
   \<and> stored_scalar (fst (EvaluateImageAt (palette_reader VTK_UNSIGNED_CHAR) 5 5 (\<lambda>k. 5))) 0 = Some 0x12"
  using EvaluateImageAt_palette_shift [OF palette_reader_format palette_reader_color,
      of VTK_UNSIGNED_SHORT 5 "\<lambda>k. 5"]
    EvaluateImageAt_palette_shift [OF palette_reader_format palette_reader_color,
      of VTK_UNSIGNED_CHAR 5 "\<lambda>k. 5"]
  by (simp add: Let_def palette_reader_type)

text \<open>
  The claim as stated fails for an output type wider than one byte that is not a short:
  with \<^verbatim>\<open>VTK_INT\<close> output the red entry \<open>0x1205\<close> is stored as \<open>0x12\<close>, its right shift.
\<close>

theorem EvaluateImageAt_wide_output_counterexample:
  "1 < ScalarSize VTK_INT
   \<and> fst (GetFormat (palette_reader VTK_INT)) = PALETTE_RGB
   \<and> fst (GetColor 5 (snd (GetFormat (palette_reader VTK_INT)))) = (0x1205, 0x3405, 0x5605)
   \<and> stored_scalar (fst (EvaluateImageAt (palette_reader VTK_INT) 5 5 (\<lambda>k. 5))) 0 = Some 0x12
   \<and> stored_scalar (fst (EvaluateImageAt (palette_reader VTK_INT) 5 5 (\<lambda>k. 5))) 0
       \<noteq> Some (convert_to VTK_INT (uint (0x1205 :: c_ushort) * 2 ^ 8))"
  by (simp add: palette_reader_format palette_reader_color palette_reader_type
      EvaluateImageAt_def Let_def)

subsection \<open>Tiled images lower than a tile\<close>

lemma memcpy_length:
  "memcpy dst doff src soff n = Completed v \<Longrightarrow> length v = length dst \<and> doff + n \<le> length dst"
  by (auto simp add: memcpy_def split: if_splits)

lemma copy_rows_bounds:
  "copy_rows dst src n tile yys volume = Completed v
   \<Longrightarrow> length v = length volume
       \<and> (\<forall>yy \<in> set yys. unat (dst (of_nat yy)) + unat n \<le> length volume)"
proof (induction yys arbitrary: volume)
  case Nil
  then show ?case by simp
next
  case (Cons yy yys)
  from Cons.prems obtain v1 where
    m: "memcpy volume (unat (dst (of_nat yy))) tile (unat (src (of_nat yy))) (unat n) = Completed v1"
    and r: "copy_rows dst src n tile yys v1 = Completed v"
    by (auto split: decode_outcome.splits)
  from memcpy_length [OF m] Cons.IH [OF r] show ?case by simp
qed

lemma copy_rows_fails:
  assumes "yy \<in> set yys" and "length volume < unat (dst (of_nat yy)) + unat n"
  shows "copy_rows dst src n tile yys volume \<noteq> Completed v"
  using copy_rows_bounds [of dst src n tile yys volume v] assms by fastforce

lemma sub_wraps: "(x :: 32 word) < y \<Longrightarrow> x \<le> x - y"
  by (simp add: sub_wrap)

lemma sub_positive: "(x :: 32 word) \<noteq> y \<Longrightarrow> 0 < x - y"
  using word_gt_0 by fastforce

lemma col_bound_positive:
  assumes "0 < Width img"
  shows "0 < col_bound img"
  using assms by (auto simp add: col_bound_def colMultiple_def intro: sub_positive)

lemma main_cols_lower_than_tile:
  assumes h: "0 < Height img" "Height img < TileHeight img"
    and w: "0 < Width img" "TileWidth img \<noteq> 0"
    and s: "SamplesPerPixel img = 1"
    and l: "length out = unat (Width img) * unat (Height img)"
    and b: "unat (Width img) * unat (Height img) < 2 ^ 32"
  shows "\<exists>f. main_cols img 0 0 0 out = Some f \<and> (\<forall>v. f \<noteq> Completed v)"
proof (cases "flip img")
  case True
  have "Height img \<le> Height img - TileHeight img"
    using h(2) by (rule sub_wraps)
  then have "TIFFReadTile img 0 (Height img - TileHeight img) 0 = None"
    by (simp add: TIFFReadTile_def)
  then show ?thesis
    using True col_bound_positive [OF w(1)] by (subst main_cols.simps) simp
next
  case False
  have t: "TIFFReadTile img 0 0 0 \<noteq> None"
    using h(1) w(1) by (auto simp add: TIFFReadTile_def Let_def not_le)
  then obtain tile where tile: "TIFFReadTile img 0 0 0 = Some tile"
    by blast
  let ?dst = "\<lambda>yy. (((0 + 0) * Height img + 0 + band_row img yy) * Width img + 0) * pixelSize img"
  let ?src = "\<lambda>yy. (0 * TileHeight img + yy) * TileWidth img * pixelSize img"
  have p: "pixelSize img = 1"
    by (simp add: pixelSize_def s)
  have m: "unat (Height img) \<in> set [0..<unat (TileHeight img)]"
    using h(2) by (simp add: word_less_nat_alt)
  have "unat (Height img * Width img) = unat (Height img) * unat (Width img)"
    using b by (simp add: unat_mult_lem [symmetric] mult.commute)
  moreover have "0 < unat (TileWidth img)"
    using w(2) by (simp add: unat_gt_0)
  ultimately have o: "length out < unat (?dst (of_nat (unat (Height img)))) + unat (TileWidth img * pixelSize img)"
    using False by (simp add: band_row_def p l mult.commute)
  have c: "copy_rows ?dst ?src (TileWidth img * pixelSize img) tile [0..<unat (TileHeight img)] out
        \<noteq> Completed v" for v
    using m o by (rule copy_rows_fails)
  show ?thesis
    using False col_bound_positive [OF w(1)] tile c
    by (subst main_cols.simps) (simp split: decode_outcome.split)
qed

lemma row_bound_lower_than_tile:
  assumes "0 < Height img" "Height img < TileHeight img"
  shows "0 < row_bound img"
  using assms by (auto simp add: row_bound_def rowMultiple_def mod_word_less intro: sub_positive)

text \<open>
  Claim C1 on an image lower than a tile. The bound of the loop over the rows,
  \<^verbatim>\<open>height - tileHeight\<close>, is computed in \<^verbatim>\<open>unsigned int\<close>: when the image is lower than a
  tile it wraps around, the pass over the full tiles runs, and the first tile does not
  fit: the decode of a single image of one byte per pixel into a buffer of its size ends
  in a failure, with either orientation. It never fills the output.
\<close>

theorem ReadTiles_image_lower_than_tile:
  assumes "0 < Height img" and "Height img < TileHeight img"
    and "0 < Width img" and "TileWidth img \<noteq> 0"
    and "NumberOfPages img = 1" and "SamplesPerPixel img = 1"
    and "length out = unat (Width img) * unat (Height img)"
    and "unat (Width img) * unat (Height img) < 2 ^ 32"
  shows "\<exists>f. ReadTiles img out = Some f \<and> (\<forall>v. f \<noteq> Completed v)"
proof -
  from main_cols_lower_than_tile [OF assms(1-4,6-8)]
  obtain f where f: "main_cols img 0 0 0 out = Some f" "\<forall>v. f \<noteq> Completed v"
    by blast
  have r: "main_rows img 0 0 out = Some f"
    using row_bound_lower_than_tile [OF assms(1,2)] f
    by (subst main_rows.simps) (simp split: decode_outcome.split)
  have t: "TileHeight img \<noteq> 0"
    using assms(2) by auto
  have "ReadTiles img out = Some f"
    using r f(2) t assms(4,5) by (simp add: ReadTiles_def split: decode_outcome.split)
  with f(2) show ?thesis
    by blast
qed

theorem ReadTiles_image_lower_than_tile_witness:
  "(0 :: c_uint) < 8 \<and> (8 :: c_uint) < 16
   \<and> (\<exists>f. ReadTiles (small_tiff 20 8 ORIENTATION_TOPLEFT) (zeros 160) = Some f
          \<and> (\<forall>v. f \<noteq> Completed v))"
  using ReadTiles_image_lower_than_tile [of "small_tiff 20 8 ORIENTATION_TOPLEFT" "zeros 160"]
  by (simp add: small_tiff_def zeros_def)

text \<open>
  On an image of 20 by 8 pixels in tiles of 16 by 16, the copy of row 8 of the first
  tile starts at the end of the buffer of 160 bytes.
\<close>

lemma ReadTiles_lower_than_tile_example:
  "ReadTiles (small_tiff 20 8 ORIENTATION_TOPLEFT) (zeros 160) = Some (WriteOutOfBounds 160 16)"
  by code_simp

subsection \<open>The right edge of a flipped tiled image\<close>

lemma next_band:
  assumes "(t :: nat) dvd row" and "t dvd h" and "row < h"
  shows "row + t \<le> h"
proof -
  from assms(1,2) obtain k j where k: "row = t * k" and j: "h = t * j"
    by (auto simp add: dvd_def)
  with assms(3) have "k < j"
    by auto
  then have "t * (k + 1) \<le> t * j"
    by (intro mult_le_mono2) simp
  then show ?thesis
    by (simp add: k j)
qed

lemma right_edge_rows_flipped:
  "right_edge_rows img row volume = Some y \<Longrightarrow>
   flip img \<longrightarrow> Height img mod TileHeight img = 0 \<longrightarrow> row < Height img
     \<longrightarrow> unat (TileHeight img) dvd unat row \<longrightarrow> (\<forall>v. y \<noteq> Completed v)"
proof (induction rule: right_edge_rows.raw_induct [rotated 1, consumes 1])
  case (1 right_edge_rows img row volume y)
  show ?case
  proof (intro impI)
    assume f: "flip img" and m: "Height img mod TileHeight img = 0"
      and r: "row < Height img" and d: "unat (TileHeight img) dvd unat row"
    have rb: "row < row_bound img"
      using r by (simp add: row_bound_def rowMultiple_def m)
    have "unat (Height img) mod unat (TileHeight img) = 0"
      using m by (metis unat_mod_distrib unsigned_0)
    then have "unat (TileHeight img) dvd unat (Height img)"
      by auto
    from next_band [OF d this] r
    have le: "unat row + unat (TileHeight img) \<le> unat (Height img)"
      by (simp add: word_less_nat_alt)
    then have u: "unat (row + TileHeight img) = unat row + unat (TileHeight img)"
      by (meson order_le_less_trans unat_add_lem unsigned_less)
    show "\<forall>v. y \<noteq> Completed v"
    proof (cases "row + TileHeight img = Height img")
      case True
      have e: "Height img - row - TileHeight img - 1 = - 1"
        unfolding True [symmetric] by simp
      have "TIFFReadTile img (Width img - Width img mod TileWidth img)
          (Height img - row - TileHeight img - 1) 0 = None"
        unfolding e by (simp add: TIFFReadTile_def)
      with 1(2) rb f show ?thesis
        by (auto simp add: Let_def)
    next
      case False
      with le u have n: "row + TileHeight img < Height img"
        by (metis nless_le unsigned_word_eqI word_less_nat_alt)
      have d': "unat (TileHeight img) dvd unat (row + TileHeight img)"
        using d u by simp
      show ?thesis
      proof (cases "TIFFReadTile img (Width img - Width img mod TileWidth img)
          (Height img - row - TileHeight img - 1) 0")
        case None
        with 1(2) rb f show ?thesis
          by (auto simp add: Let_def)
      next
        case (Some tile)
        show ?thesis
        proof (cases "copy_rows
            (\<lambda>yy. (((0 + 0) * Height img + row + band_row img yy) * Width img
                     + (Width img - Width img mod TileWidth img)) * pixelSize img)
            (\<lambda>yy. (0 * TileHeight img + yy) * TileWidth img * pixelSize img)
            (Width img mod TileWidth img * pixelSize img) tile [0..<unat (TileHeight img)] volume")
          case (Completed volume1)
          with 1(2) rb f Some have "right_edge_rows img (row + TileHeight img) volume1 = Some y"
            by (simp add: Let_def)
          from 1(1) [OF this] f m n d' show ?thesis
            by blast
        qed (use 1(2) rb f Some in \<open>auto simp add: Let_def\<close>)
      qed
    qed
  qed
qed

text \<open>
  Claim C2 on the right edge of a tiled image. With an orientation other than
  \<^verbatim>\<open>ORIENTATION_TOPLEFT\<close> the pass over the full tiles reads the tile at
  \<^verbatim>\<open>height - row - tileHeight\<close>, the pass over the right edge the tile at
  \<^verbatim>\<open>height - row - tileHeight - 1\<close>. When the height is a multiple of the tile height and
  the width is not a multiple of the tile width, the last band of the right edge asks
  for the row \<open>-1\<close>, which is no row of the image: the decode never fills the output.
\<close>

theorem ReadTiles_flipped_right_edge:
  assumes "Orientation img \<noteq> ORIENTATION_TOPLEFT"
    and "Height img mod TileHeight img = 0" and "Width img mod TileWidth img \<noteq> 0"
    and "0 < Height img"
  shows "ReadTiles img out \<noteq> Some (Completed v)"
proof
  assume c: "ReadTiles img out = Some (Completed v)"
  have f: "flip img"
    using assms(1) by (simp add: flip_def)
  have e: "right_edge_rows img 0 volume1 \<noteq> Some (Completed volume2)" for volume1 volume2
    using right_edge_rows_flipped [of img 0 volume1 "Completed volume2"] f assms(2,4)
    by auto
  have n: "\<not> colMultiple img" and r: "rowMultiple img"
    using assms(2,3) by (simp_all add: colMultiple_def rowMultiple_def)
  from c show False
    using e n r
    by (auto simp add: ReadTiles_def split: if_splits option.splits decode_outcome.splits)
qed

theorem ReadTiles_flipped_right_edge_witness:
  "ORIENTATION_BOTLEFT \<noteq> ORIENTATION_TOPLEFT \<and> (16 :: c_uint) mod 16 = 0
   \<and> (20 :: c_uint) mod 16 \<noteq> 0
   \<and> (\<forall>v. ReadTiles (small_tiff 20 16 ORIENTATION_BOTLEFT) (zeros 320) \<noteq> Some (Completed v))"
  using ReadTiles_flipped_right_edge [of "small_tiff 20 16 ORIENTATION_BOTLEFT" "zeros 320"]
  by (simp add: small_tiff_def ORIENTATION_BOTLEFT_def ORIENTATION_TOPLEFT_def)

section \<open>Properties of the data source\<close>

subsection \<open>Serialized fields\<close>

text \<open>
  Claim C8, as amended. \<^verbatim>\<open>serialize\<close> writes the spacing exactly when the units or the
  spacing were explicitly modified (\<^verbatim>\<open>UnitsModified\<close>); it writes the origin and the
  orientation always, from the display position and the display orientation.
\<close>

theorem serialize_spacing_origin_orientation:
  "json_spacing (serialize s) = (if UnitsModified s then Some (Spacing (ProducerOutput s)) else None)
   \<and> json_origin (serialize s) = Some (DisplayPosition s)
   \<and> json_orientation (serialize s) = Some (DisplayOrientation s)"
  by (simp add: serialize_def)

theorem serialize_spacing_origin_orientation_witness:
  "json_spacing (serialize example_source) = None
   \<and> json_spacing (serialize (setSpacing [2, 2, 2] True example_source)) = Some [2, 2, 2]
   \<and> json_origin (serialize example_source) = Some [0, 0, 0]"
  using serialize_spacing_origin_orientation [of example_source]
    serialize_spacing_origin_orientation [of "setSpacing [2, 2, 2] True example_source"]
  by (simp add: example_source_def init_def setSpacing_def emit_def Let_def)

text \<open>
  The claim as stated fails: a data source whose units were never modified serializes
  with its origin and its orientation.
\<close>

theorem serialize_origin_counterexample:
  "\<not> UnitsModified example_source
   \<and> json_origin (serialize example_source) = Some [0, 0, 0]
   \<and> json_orientation (serialize example_source) = Some [0, 0, 0]"
  by (simp add: serialize_def example_source_def init_def Let_def)

subsection \<open>Switching the time step\<close>

lemma switchTimeSeriesStep_too_large:
  "numTimeSeriesSteps s \<le> i \<Longrightarrow>
   switchTimeSeriesStep i s
     = Returned (s\<lparr>Messages := Messages s @ [TimeStepOutOfBounds i (length (timeSeriesSteps s))]\<rparr>)"
  by (simp add: switchTimeSeriesStep_def numTimeSeriesSteps_def qWarning_def)

lemma switchTimeSeriesStep_negative:
  "i < 0 \<Longrightarrow>
   switchTimeSeriesStep i s = InvalidListAccess (s\<lparr>m_changingTimeStep := True, currentTimeStep := i\<rparr>)"
  by (simp add: switchTimeSeriesStep_def Let_def)

text \<open>
  Claim C3 at a negative index. The code rejects only \<open>i \<ge> size\<close>
  (\<open>switchTimeSeriesStep_too_large\<close>: a message, nothing else changes). With \<open>i = -1\<close> on
  a series of two steps it sets \<^verbatim>\<open>m_changingTimeStep\<close>, stores \<open>-1\<close> as the current index
  and indexes the list of steps with it, without a message.
\<close>

theorem switchTimeSeriesStep_negative_index:
  "numTimeSeriesSteps series_source = 2
   \<and> currentTimeSeriesIndex series_source = 0
   \<and> switchTimeSeriesStep (- 1) series_source
       = InvalidListAccess (series_source\<lparr>m_changingTimeStep := True, currentTimeStep := - 1\<rparr>)
   \<and> Messages (series_source\<lparr>m_changingTimeStep := True, currentTimeStep := - 1\<rparr>) = []"
  by (simp add: switchTimeSeriesStep_def numTimeSeriesSteps_def currentTimeSeriesIndex_def
      series_source_def example_source_def init_def Let_def)

subsection \<open>What the operations leave unchanged\<close>

lemma emit_fields [simp]:
  "ProducerOutput (emit e s) = ProducerOutput s"
  "CurrentToOriginal (emit e s) = CurrentToOriginal s"
  "Type (emit e s) = Type s"
  "m_json_label (emit e s) = m_json_label s"
  "m_json_fileNames (emit e s) = m_json_fileNames s"
  "Messages (emit e s) = Messages s"
  "m_changingTimeStep (emit e s) = m_changingTimeStep s"
  by (simp_all add: emit_def)

lemma createOrResizeTiltAnglesArray_fields [simp]:
  "PointData (createOrResizeTiltAnglesArray d) = PointData d"
  "ActiveScalarsIndex (createOrResizeTiltAnglesArray d) = ActiveScalarsIndex d"
  "Extent (createOrResizeTiltAnglesArray d) = Extent d"
  "Spacing (createOrResizeTiltAnglesArray d) = Spacing d"
  by (simp_all add: createOrResizeTiltAnglesArray_def Let_def split: option.split)

lemma setType_image_fields [simp]:
  "PointData (setType_image t d) = PointData d"
  "ActiveScalarsIndex (setType_image t d) = ActiveScalarsIndex d"
  "Extent (setType_image t d) = Extent d"
  "Spacing (setType_image t d) = Spacing d"
  by (simp_all add: setType_image_def clearTiltAngles_def Let_def)



lemma ensureTiltAnglesArrayExists_fields [simp]:
  "PointData (ProducerOutput (ensureTiltAnglesArrayExists s)) = PointData (ProducerOutput s)"
  "ActiveScalarsIndex (ProducerOutput (ensureTiltAnglesArrayExists s)) = ActiveScalarsIndex (ProducerOutput s)"
  "Extent (ProducerOutput (ensureTiltAnglesArrayExists s)) = Extent (ProducerOutput s)"
  "CurrentToOriginal (ensureTiltAnglesArrayExists s) = CurrentToOriginal s"
  "m_json_label (ensureTiltAnglesArrayExists s) = m_json_label s"
  "m_json_fileNames (ensureTiltAnglesArrayExists s) = m_json_fileNames s"
  "Type (ensureTiltAnglesArrayExists s) = Type s"
  by (simp_all add: ensureTiltAnglesArrayExists_def)

lemma setType_fields [simp]:
  "PointData (ProducerOutput (setType t s)) = PointData (ProducerOutput s)"
  "ActiveScalarsIndex (ProducerOutput (setType t s)) = ActiveScalarsIndex (ProducerOutput s)"
  "Extent (ProducerOutput (setType t s)) = Extent (ProducerOutput s)"
  "CurrentToOriginal (setType t s) = CurrentToOriginal s"
  "m_json_label (setType t s) = m_json_label s"
  "m_json_fileNames (setType t s) = m_json_fileNames s"
  "Type (setType t s) = t"
  by (cases "t = TiltSeries"; simp add: setType_def Let_def)+

lemma dataModified_fields [simp]:
  "PointData (ProducerOutput (dataModified s)) = PointData (ProducerOutput s)"
  "ActiveScalarsIndex (ProducerOutput (dataModified s)) = ActiveScalarsIndex (ProducerOutput s)"
  "Extent (ProducerOutput (dataModified s)) = Extent (ProducerOutput s)"
  "CurrentToOriginal (dataModified s) = CurrentToOriginal s"
  "m_json_label (dataModified s) = m_json_label s"
  "m_json_fileNames (dataModified s) = m_json_fileNames s"
  by (cases "tomviz_data_source_type (FieldData (ProducerOutput s))"; simp add: dataModified_def Let_def)+


lemma GetScalars_cong:
  assumes "PointData d' = PointData d" "ActiveScalarsIndex d' = ActiveScalarsIndex d"
  shows "GetScalars d' = GetScalars d"
  unfolding GetScalars_def assms ..

lemma activeScalars_cong:
  assumes "PointData (ProducerOutput s') = PointData (ProducerOutput s)"
    "ActiveScalarsIndex (ProducerOutput s') = ActiveScalarsIndex (ProducerOutput s)"
  shows "activeScalars s' = activeScalars s"
  unfolding activeScalars_def GetScalars_cong [OF assms] ..

lemma getScalarsArray_cong:
  assumes "PointData (ProducerOutput s') = PointData (ProducerOutput s)"
    "ActiveScalarsIndex (ProducerOutput s') = ActiveScalarsIndex (ProducerOutput s)"
  shows "getScalarsArray n s' = getScalarsArray n s"
  unfolding getScalarsArray_def HasArray_def Let_def assms ..

lemma dataModified_observers [simp]:
  "listScalars (dataModified s) = listScalars s"
  "activeScalars (dataModified s) = activeScalars s"
  "getScalarsArray n (dataModified s) = getScalarsArray n s"
    apply (simp add: listScalars_def)
   apply (rule activeScalars_cong; simp)
  apply (rule getScalarsArray_cong; simp)
  done

lemma emit_observers [simp]:
  "listScalars (emit e s) = listScalars s"
  "activeScalars (emit e s) = activeScalars s"
  "getScalarsArray n (emit e s) = getScalarsArray n s"
  by (simp_all add: listScalars_def getScalarsArray_def HasArray_def activeScalars_def Let_def)

text \<open>Under a name that is not empty, \<^verbatim>\<open>getScalarsArray\<close> is the lookup by name.\<close>

lemma getScalarsArray_named:
  "n \<noteq> [] \<Longrightarrow> getScalarsArray n s = GetArrayIndex n (PointData (ProducerOutput s))"
  by (auto simp add: getScalarsArray_def HasArray_def Let_def)

subsection \<open>Array lookup\<close>

lemma GetArrayIndex_Some:
  "GetArrayIndex n as = Some i \<Longrightarrow>
   i < length as \<and> ArrayName (as ! i) = n \<and> (\<forall>j < i. ArrayName (as ! j) \<noteq> n)"
proof (induction as arbitrary: i)
  case Nil
  then show ?case by simp
next
  case (Cons a as)
  show ?case
  proof (cases "ArrayName a = n")
    case True
    then show ?thesis using Cons.prems by simp
  next
    case False
    then obtain k where k: "GetArrayIndex n as = Some k" "i = Suc k"
      using Cons.prems by auto
    from Cons.IH [OF k(1)] False k(2) show ?thesis
      by (auto simp: nth_Cons split: nat.split)
  qed
qed

lemma GetArrayIndex_None: "GetArrayIndex n as = None \<longleftrightarrow> n \<notin> ArrayName ` set as"
  by (induction as) auto

lemma GetArrayIndex_unique:
  "i < length as \<Longrightarrow> ArrayName (as ! i) = n \<Longrightarrow> \<forall>j < i. ArrayName (as ! j) \<noteq> n
   \<Longrightarrow> GetArrayIndex n as = Some i"
proof (induction as arbitrary: i)
  case Nil
  then show ?case by simp
next
  case (Cons a as)
  show ?case
  proof (cases i)
    case 0
    then show ?thesis using Cons.prems by simp
  next
    case (Suc k)
    have "ArrayName a \<noteq> n" using Cons.prems(3) Suc by force
    moreover have "GetArrayIndex n as = Some k"
      using Cons.prems Suc by (intro Cons.IH) force+
    ultimately show ?thesis using Suc by simp
  qed
qed

subsection \<open>The rename map as a function\<close>

lemma map_of_qmap_remove: "map_of (qmap_remove k m) = (map_of m)(k := None)"
  by (induction m) (auto simp: qmap_remove_def)

lemma map_of_insort_key:
  "k \<notin> fst ` set m \<Longrightarrow> map_of (insort_key fst (k, v) m) = (map_of m)(k \<mapsto> v)"
  by (induction m) (auto simp: fun_upd_twist)

lemma qmap_remove_keys: "fst ` set (qmap_remove k m) = fst ` set m - {k}"
  by (auto simp: qmap_remove_def)

lemma map_of_qmap_insert: "map_of (qmap_insert k v m) = (map_of m)(k \<mapsto> v)"
  by (simp add: qmap_insert_def map_of_insort_key qmap_remove_keys map_of_qmap_remove)

lemma qmap_value_insert: "qmap_value (qmap_insert k v m) k = v"
  by (simp add: qmap_value_def map_of_qmap_insert)


subsection \<open>Renaming there and back\<close>

lemma setActiveScalars_found:
  "n \<noteq> [] \<Longrightarrow> getScalarsArray n s = Some i \<Longrightarrow>
   PointData (ProducerOutput (setActiveScalars n s)) = PointData (ProducerOutput s)
   \<and> ActiveScalarsIndex (ProducerOutput (setActiveScalars n s)) = Some i
   \<and> CurrentToOriginal (setActiveScalars n s) = CurrentToOriginal s"
  by (simp add: setActiveScalars_def SetActiveScalars_def getScalarsArray_named)

lemma setActiveScalars_missing:
  "getScalarsArray n s = None \<Longrightarrow>
   ProducerOutput (setActiveScalars n s) = ProducerOutput s
   \<and> CurrentToOriginal (setActiveScalars n s) = CurrentToOriginal s"
  by (simp add: setActiveScalars_def qWarning_def)

text \<open>What a rename that goes through does to the arrays, the selection and the map.\<close>

lemma renameScalarsArray_effect:
  assumes "a \<noteq> b" "getScalarsArray a s = Some i" "getScalarsArray b s = None"
    and ne: "a \<noteq> []" "b \<noteq> []"
  defines "P \<equiv> PointData (ProducerOutput s)"
  defines "s' \<equiv> renameScalarsArray a b s"
  shows "PointData (ProducerOutput s') = P[i := (P ! i)\<lparr>ArrayName := b\<rparr>]"
    and "ActiveScalarsIndex (ProducerOutput s')
           = (if a = activeScalars s then Some i else ActiveScalarsIndex (ProducerOutput s))"
    and "CurrentToOriginal s'
           = qmap_insert b (qmap_value (CurrentToOriginal s) a) (qmap_remove a (CurrentToOriginal s))"
proof -
  define s1 where "s1 = s\<lparr>ProducerOutput := SetName i b (ProducerOutput s)\<rparr>"
  have P1: "PointData (ProducerOutput s1) = P[i := (P ! i)\<lparr>ArrayName := b\<rparr>]"
    by (simp add: s1_def SetName_def P_def)
  have i: "i < length P" "ArrayName (P ! i) = a"
    using GetArrayIndex_Some [of a P i] assms(2) ne(1)
    by (simp_all add: getScalarsArray_named P_def)
  have "\<forall>j < i. ArrayName ((P[i := (P ! i)\<lparr>ArrayName := b\<rparr>]) ! j) \<noteq> b"
    using assms(3) i(1) ne(2) by (auto simp: getScalarsArray_named GetArrayIndex_None P_def)
  then have b1: "getScalarsArray b s1 = Some i"
    unfolding getScalarsArray_named [OF ne(2)] P1 using i(1)
    by (intro GetArrayIndex_unique) simp_all
  define s2 where "s2 = (if a = activeScalars s then setActiveScalars b s1
      else emit dataPropertiesChanged (emit activeScalarsChanged (dataModified s1)))"
  have s': "s' = s2\<lparr>CurrentToOriginal :=
      qmap_insert b (qmap_value (CurrentToOriginal s2) a) (qmap_remove a (CurrentToOriginal s2))\<rparr>"
    using assms(1,2,3) by (simp add: s'_def renameScalarsArray_def s1_def s2_def Let_def)
  have M: "CurrentToOriginal s2 = CurrentToOriginal s"
    using setActiveScalars_found [OF ne(2) b1] by (simp add: s2_def s1_def)
  have P2: "PointData (ProducerOutput s2) = P[i := (P ! i)\<lparr>ArrayName := b\<rparr>]"
    using setActiveScalars_found [OF ne(2) b1] P1 by (simp add: s2_def)
  have A2: "ActiveScalarsIndex (ProducerOutput s2)
      = (if a = activeScalars s then Some i else ActiveScalarsIndex (ProducerOutput s))"
    using setActiveScalars_found [OF ne(2) b1] by (simp add: s2_def s1_def SetName_def)
  show "PointData (ProducerOutput s') = P[i := (P ! i)\<lparr>ArrayName := b\<rparr>]"
    using P2 by (simp add: s')
  show "ActiveScalarsIndex (ProducerOutput s')
           = (if a = activeScalars s then Some i else ActiveScalarsIndex (ProducerOutput s))"
    using A2 by (simp add: s')
  show "CurrentToOriginal s'
           = qmap_insert b (qmap_value (CurrentToOriginal s) a) (qmap_remove a (CurrentToOriginal s))"
    by (simp add: s' M)
qed


lemma renamed_lookup:
  assumes "distinct (map ArrayName P)" "GetArrayIndex a P = Some i" "GetArrayIndex b P = None"
  defines "P' \<equiv> P[i := (P ! i)\<lparr>ArrayName := b\<rparr>]"
  shows "GetArrayIndex b P' = Some i" and "GetArrayIndex a P' = None"
    and "P'[i := (P' ! i)\<lparr>ArrayName := a\<rparr>] = P"
    and "\<forall>j < length P. j \<noteq> i \<longrightarrow> P' ! j = P ! j"
proof -
  have i: "i < length P" "ArrayName (P ! i) = a"
    using GetArrayIndex_Some [OF assms(2)] by simp_all
  have nb: "\<forall>j < length P. ArrayName (P ! j) \<noteq> b"
    using assms(3) by (auto simp: GetArrayIndex_None)
  have ab: "a \<noteq> b" using i nb by auto
  show "GetArrayIndex b P' = Some i"
    unfolding P'_def using i nb by (intro GetArrayIndex_unique) simp_all
  have "\<forall>j < length P. j \<noteq> i \<longrightarrow> ArrayName (P ! j) \<noteq> a"
    using assms(1) i by (auto simp: distinct_conv_nth)
  then have "\<forall>j < length P'. ArrayName (P' ! j) \<noteq> a"
    using ab i by (auto simp: P'_def nth_list_update)
  then show "GetArrayIndex a P' = None"
    by (auto simp: GetArrayIndex_None in_set_conv_nth)
  have "(P ! i)\<lparr>ArrayName := a\<rparr> = P ! i"
    using i(2) by simp
  then show "P'[i := (P' ! i)\<lparr>ArrayName := a\<rparr>] = P"
    using i(1) by (simp add: P'_def)
  show "\<forall>j < length P. j \<noteq> i \<longrightarrow> P' ! j = P ! j"
    by (simp add: P'_def)
qed

lemma map_upd_back:
  assumes "a \<noteq> b"
  shows "(((m(a := None))(b \<mapsto> v))(b := None))(a \<mapsto> v) = m \<longleftrightarrow> m a = Some v \<and> m b = None"
proof
  assume eq: "(((m(a := None))(b \<mapsto> v))(b := None))(a \<mapsto> v) = m"
  have "m a = Some v" using fun_cong [OF eq, of a] by simp
  moreover have "m b = None" using fun_cong [OF eq, of b] assms by simp
  ultimately show "m a = Some v \<and> m b = None" ..
next
  assume h: "m a = Some v \<and> m b = None"
  show "(((m(a := None))(b \<mapsto> v))(b := None))(a \<mapsto> v) = m"
  proof
    fix x
    show "((((m(a := None))(b \<mapsto> v))(b := None))(a \<mapsto> v)) x = m x"
      using h by (cases "x = a"; cases "x = b"; simp)
  qed
qed

text \<open>
  Claim C6, as amended. For every data source whose arrays have distinct names, and for
  names \<open>a\<close> and \<open>b\<close> that are not empty, with an array named \<open>a\<close> and none named \<open>b\<close>:
  renaming \<open>a\<close> to \<open>b\<close> and \<open>b\<close> back to \<open>a\<close> restores the names of the arrays and the
  name of the active scalars; it restores the rename map exactly when the map had an
  entry for \<open>a\<close> and none for \<open>b\<close>. The map is compared as a map, by its entries.
\<close>

theorem rename_there_and_back:
  assumes "distinct (listScalars s)"
    and "a \<in> set (listScalars s)" and "b \<notin> set (listScalars s)"
    and "a \<noteq> []" and "b \<noteq> []"
  shows "listScalars (renameScalarsArray b a (renameScalarsArray a b s)) = listScalars s
    \<and> activeScalars (renameScalarsArray b a (renameScalarsArray a b s)) = activeScalars s
    \<and> (map_of (CurrentToOriginal (renameScalarsArray b a (renameScalarsArray a b s)))
          = map_of (CurrentToOriginal s)
        \<longleftrightarrow> a \<in> fst ` set (CurrentToOriginal s) \<and> b \<notin> fst ` set (CurrentToOriginal s))"
proof -
  define P where "P = PointData (ProducerOutput s)"
  define A where "A = ActiveScalarsIndex (ProducerOutput s)"
  define M where "M = CurrentToOriginal s"
  define s1 where "s1 = renameScalarsArray a b s"
  define s2 where "s2 = renameScalarsArray b a s1"
  have d: "distinct (map ArrayName P)" using assms(1) by (simp add: listScalars_def P_def)
  have gb: "GetArrayIndex b P = None"
    using assms(3) by (simp add: GetArrayIndex_None listScalars_def P_def)
  have "GetArrayIndex a P \<noteq> None"
    using assms(2) by (simp add: GetArrayIndex_None listScalars_def P_def)
  then obtain i where ga: "GetArrayIndex a P = Some i" by blast
  have ia: "getScalarsArray a s = Some i" and nb0: "getScalarsArray b s = None"
    using ga gb assms(4,5) by (simp_all add: getScalarsArray_named P_def)
  have i: "i < length P" "ArrayName (P ! i) = a"
    using GetArrayIndex_Some [OF ga] by simp_all
  have nb: "b \<notin> ArrayName ` set P" using gb by (simp add: GetArrayIndex_None)
  have ab: "a \<noteq> b" using i nb by (metis imageI nth_mem)
  define P1 where "P1 = P[i := (P ! i)\<lparr>ArrayName := b\<rparr>]"
  note L = renamed_lookup [OF d ga gb, folded P1_def]
  have e1: "PointData (ProducerOutput s1) = P1"
    "ActiveScalarsIndex (ProducerOutput s1) = (if a = activeScalars s then Some i else A)"
    "CurrentToOriginal s1 = qmap_insert b (qmap_value M a) (qmap_remove a M)"
    using renameScalarsArray_effect [OF ab ia nb0 assms(4,5)]
    by (simp_all add: s1_def P_def P1_def A_def M_def)
  have ib: "getScalarsArray b s1 = Some i" and na: "getScalarsArray a s1 = None"
    using L(1,2) assms(4,5) by (simp_all add: getScalarsArray_named e1(1))
  have e2: "PointData (ProducerOutput s2) = P"
    "ActiveScalarsIndex (ProducerOutput s2)
       = (if b = activeScalars s1 then Some i else ActiveScalarsIndex (ProducerOutput s1))"
    "CurrentToOriginal s2
       = qmap_insert a (qmap_value (CurrentToOriginal s1) b) (qmap_remove b (CurrentToOriginal s1))"
    using renameScalarsArray_effect [OF ab [symmetric] ib na assms(5,4)] L(3)
    by (simp_all add: s2_def e1(1))
  have names: "listScalars s2 = listScalars s"
    by (simp add: listScalars_def e2(1) P_def)
  have act: "activeScalars s2 = activeScalars s"
  proof (cases "a = activeScalars s")
    case True
    then have "activeScalars s1 = b"
      using i(1) by (simp add: activeScalars_def GetScalars_def e1 P1_def)
    then have "ActiveScalarsIndex (ProducerOutput s2) = Some i"
      by (simp add: e2(2))
    then have "activeScalars s2 = a"
      using i by (simp add: activeScalars_def GetScalars_def e2(1))
    then show ?thesis using True by simp
  next
    case False
    have A1: "ActiveScalarsIndex (ProducerOutput s1) = A" using False by (simp add: e1(2))
    have same: "activeScalars s1 = activeScalars s"
    proof (cases A)
      case None
      then show ?thesis by (simp add: activeScalars_def GetScalars_def A1 A_def [symmetric])
    next
      case (Some j)
      show ?thesis
      proof (cases "j < length P")
        case True
        have "j \<noteq> i"
          using False True Some i(2)
          by (auto simp: activeScalars_def GetScalars_def A_def [symmetric] P_def [symmetric])
        then have "P1 ! j = P ! j" using L(4) True by simp
        then show ?thesis
          using True Some
          by (simp add: activeScalars_def GetScalars_def A1 e1(1) A_def [symmetric]
              P_def [symmetric] P1_def)
      next
        case False
        then show ?thesis
          using Some
          by (simp add: activeScalars_def GetScalars_def A1 e1(1) A_def [symmetric]
              P_def [symmetric] P1_def)
      qed
    qed
    have "b \<noteq> activeScalars s"
    proof (cases "GetScalars (ProducerOutput s)")
      case None
      then have "activeScalars s = []" by (simp add: activeScalars_def)
      moreover have "b \<noteq> []" using assms(5) by simp
      ultimately show ?thesis by simp
    next
      case (Some arr)
      then have "arr \<in> set P"
        by (auto simp: GetScalars_def P_def split: option.splits if_splits)
      then have "ArrayName arr \<noteq> b" using nb by auto
      then show ?thesis using Some by (simp add: activeScalars_def)
    qed
    then have "ActiveScalarsIndex (ProducerOutput s2) = A"
      using same A1 by (simp add: e2(2))
    then show ?thesis
      unfolding A_def
      by (intro activeScalars_cong) (simp_all add: e2(1) P_def)
  qed
  have "map_of (CurrentToOriginal s2)
      = ((((map_of M)(a := None))(b \<mapsto> qmap_value M a))(b := None))(a \<mapsto> qmap_value M a)"
    by (simp add: e2(3) e1(3) map_of_qmap_insert map_of_qmap_remove qmap_value_insert)
  then have "map_of (CurrentToOriginal s2) = map_of M
      \<longleftrightarrow> map_of M a = Some (qmap_value M a) \<and> map_of M b = None"
    using map_upd_back [OF ab, of "map_of M" "qmap_value M a"] by simp
  also have "\<dots> \<longleftrightarrow> a \<in> fst ` set M \<and> b \<notin> fst ` set M"
  proof -
    have "map_of M b = None \<longleftrightarrow> b \<notin> fst ` set M"
      by (rule map_of_eq_None_iff)
    moreover have "map_of M a = Some (qmap_value M a) \<longleftrightarrow> a \<in> fst ` set M"
      using map_of_eq_None_iff [of M a] by (cases "map_of M a") (simp_all add: qmap_value_def)
    ultimately show ?thesis by simp
  qed
  finally have maps: "map_of (CurrentToOriginal s2) = map_of M
      \<longleftrightarrow> a \<in> fst ` set M \<and> b \<notin> fst ` set M" .
  show ?thesis
    using names act maps unfolding s2_def s1_def M_def by blast
qed


lemma two_array_source_fields:
  "PointData (ProducerOutput two_array_source)
     = [example_array ''a'' [1, 2], example_array ''c'' [1, 2]]"
  "ActiveScalarsIndex (ProducerOutput two_array_source) = Some 0"
  "CurrentToOriginal two_array_source = [(''a'', ''a''), (''c'', ''c'')]"
  by (simp_all add: two_array_source_def init_def example_image_def ensureActiveArray_def
      GetScalars_def SetActiveScalars_def example_array_def identity_renames_def
      qmap_insert_def qmap_remove_def Let_def)

theorem rename_there_and_back_witness:
  "distinct (listScalars two_array_source)
   \<and> ''a'' \<in> set (listScalars two_array_source)
   \<and> ''b'' \<notin> set (listScalars two_array_source)
   \<and> listScalars (renameScalarsArray ''b'' ''a'' (renameScalarsArray ''a'' ''b'' two_array_source))
       = [''a'', ''c'']
   \<and> activeScalars (renameScalarsArray ''b'' ''a'' (renameScalarsArray ''a'' ''b'' two_array_source))
       = ''a''
   \<and> map_of (CurrentToOriginal
         (renameScalarsArray ''b'' ''a'' (renameScalarsArray ''a'' ''b'' two_array_source)))
       = map_of (CurrentToOriginal two_array_source)"
proof -
  have v: "listScalars two_array_source = [''a'', ''c'']" "activeScalars two_array_source = ''a''"
    by (simp_all add: listScalars_def activeScalars_def GetScalars_def two_array_source_fields
        example_array_def)
  from rename_there_and_back [of two_array_source "''a''" "''b''"] v show ?thesis
    by (simp add: two_array_source_fields)
qed

lemma copied_source_fields:
  "PointData (ProducerOutput copied_source) = [example_array ''a'' [1, 2]]"
  "ActiveScalarsIndex (ProducerOutput copied_source) = Some 0"
  "CurrentToOriginal copied_source = [(''x'', ''x'')]"
  by (simp_all add: copied_source_def copyData_def own_units_def no_field_data_def init_def
      example_image_def identity_renames_def qmap_insert_def qmap_remove_def ensureActiveArray_def GetScalars_def
      SetActiveScalars_def example_array_def Let_def)

text \<open>
  The claim as stated fails for the rename map. After \<^verbatim>\<open>copyData\<close> has replaced the
  data of a source created on an array \<open>x\<close> by data with an array \<open>a\<close>, the map still
  tracks \<open>x\<close> alone; renaming \<open>a\<close> to \<open>b\<close> and back leaves an entry from \<open>a\<close> to the
  empty string in it.
\<close>

theorem rename_untracked_array_counterexample:
  "getScalarsArray ''a'' copied_source \<noteq> None
   \<and> getScalarsArray ''b'' copied_source = None
   \<and> CurrentToOriginal copied_source = [(''x'', ''x'')]
   \<and> CurrentToOriginal (renameScalarsArray ''b'' ''a'' (renameScalarsArray ''a'' ''b'' copied_source))
       = [(''a'', ''''), (''x'', ''x'')]"
proof -
  have g: "getScalarsArray ''a'' copied_source = Some 0" "getScalarsArray ''b'' copied_source = None"
    by (simp_all add: getScalarsArray_named copied_source_fields example_array_def)
  have ab: "''a'' \<noteq> ''b''" and ne: "''a'' \<noteq> []" "''b'' \<noteq> []" by simp_all
  note e1 = renameScalarsArray_effect [OF ab g ne]
  have g1: "getScalarsArray ''b'' (renameScalarsArray ''a'' ''b'' copied_source) = Some 0"
    "getScalarsArray ''a'' (renameScalarsArray ''a'' ''b'' copied_source) = None"
    by (simp_all add: getScalarsArray_named e1(1) copied_source_fields example_array_def)
  note e2 = renameScalarsArray_effect [OF ab [symmetric] g1 ne(2,1)]
  show ?thesis
    using g by (simp add: e2(3) e1(3) copied_source_fields qmap_insert_def qmap_remove_def
        qmap_value_def)
qed

lemma two_array_output:
  "ProducerOutput two_array_source = (example_image [''a'', ''c''])\<lparr>ActiveScalarsIndex := Some 0\<rparr>"
  by (simp add: two_array_source_def init_def ensureActiveArray_def example_image_def GetScalars_def
      SetActiveScalars_def example_array_def Let_def)

text \<open>
  The empty name. \<^verbatim>\<open>getScalarsArray("")\<close> is the active array, not the array that is
  named so. With \<open>a\<close> active, renaming \<open>c\<close> to the empty name and back renames \<open>a\<close>
  on the way back; and renaming the array with the empty name to \<open>b\<close> renames \<open>a\<close>, after
  which the way back is refused.
\<close>

lemma rename_to_empty_name_example:
  "listScalars two_array_source = [''a'', ''c''] \<and> activeScalars two_array_source = ''a''
   \<and> listScalars (renameScalarsArray ''c'' [] two_array_source) = [''a'', []]
   \<and> listScalars (renameScalarsArray [] ''c'' (renameScalarsArray ''c'' [] two_array_source))
       = [''c'', []]
   \<and> activeScalars (renameScalarsArray [] ''c'' (renameScalarsArray ''c'' [] two_array_source))
       = ''c''"
  by (simp add: renameScalarsArray_def getScalarsArray_def HasArray_def listScalars_def
      activeScalars_def GetScalars_def SetName_def setActiveScalars_def SetActiveScalars_def
      dataModified_def two_array_output example_image_def example_array_def no_field_data_def
      Let_def)

lemma rename_from_empty_name_example:
  "listScalars (renameScalarsArray ''c'' [] two_array_source) = [''a'', []]
   \<and> activeScalars (renameScalarsArray ''c'' [] two_array_source) = ''a''
   \<and> listScalars (renameScalarsArray ''b'' []
        (renameScalarsArray [] ''b'' (renameScalarsArray ''c'' [] two_array_source)))
       = [''b'', []]"
  by (simp add: renameScalarsArray_def getScalarsArray_def HasArray_def listScalars_def
      activeScalars_def GetScalars_def SetName_def setActiveScalars_def SetActiveScalars_def
      dataModified_def two_array_output example_image_def example_array_def no_field_data_def
      Let_def)

subsection \<open>Appending a slice\<close>

lemma to_c_int_small: "n < 2 ^ 31 \<Longrightarrow> to_c_int n = int n"
proof -
  assume n: "n < 2 ^ 31"
  have "sint (word_of_nat n :: 32 word) = sint (word_of_int (int n) :: 32 word)"
    by simp
  also have "\<dots> = signed_take_bit 31 (int n)"
    by (simp only: sint_sbintrunc') simp
  also have "\<dots> = int n"
    using n by (intro signed_take_bit_int_eq_self) simp_all
  finally show ?thesis by (simp add: to_c_int_def)
qed

lemma write_bytes_front:
  "length bs \<le> length st \<Longrightarrow> write_bytes 0 bs st = bs @ drop (length bs) st"
  by (simp add: write_bytes_def)

lemma write_bytes_back:
  "length st = n + length bs \<Longrightarrow> write_bytes n bs st = take n st @ bs"
  by (simp add: write_bytes_def)

lemma first_mismatch_None:
  "length as = length bs \<Longrightarrow> first_mismatch as bs = None \<longleftrightarrow> as = bs"
  by (induction as bs rule: list_induct2) auto

lemma extent_match:
  "first_mismatch (take 4 (extent_list e)) (take 4 (extent_list e')) = None
   \<longleftrightarrow> x0 e = x0 e' \<and> x1 e = x1 e' \<and> y0 e = y0 e' \<and> y1 e = y1 e'"
  by (subst first_mismatch_None) (auto simp: extent_list_def)

lemma GetNumberOfTuples_fit:
  "scalars_fit img a \<Longrightarrow>
   GetNumberOfTuples a * NumberOfComponents a * ElementSize a = length (Storage a)"
  by (simp add: scalars_fit_def GetNumberOfTuples_def mult.assoc)

lemma NumberOfPoints_grow:
  assumes "x0 e \<le> x1 e" "y0 e \<le> y1 e" "z0 e \<le> z1 e + 1"
  shows "NumberOfPoints (e\<lparr>z1 := z1 e + 1\<rparr>)
     = NumberOfPoints e + nat (x1 e - x0 e + 1) * nat (y1 e - y0 e + 1)"
proof (cases "z1 e < z0 e")
  case True
  then have "z1 e + 1 = z0 e" using assms(3) by simp
  then show ?thesis using assms True by (simp add: NumberOfPoints_def)
next
  case False
  then have "nat (z1 e + 1 - z0 e + 1) = Suc (nat (z1 e - z0 e + 1))" by simp
  then show ?thesis using assms False by (simp add: NumberOfPoints_def)
qed

lemma NumberOfPoints_layer:
  assumes "x0 e \<le> x1 e" "y0 e \<le> y1 e" "z0 e = z1 e"
  shows "NumberOfPoints e = nat (x1 e - x0 e + 1) * nat (y1 e - y0 e + 1)"
  using assms by (simp add: NumberOfPoints_def)

lemma NumberOfPoints_below:
  assumes "x0 e \<le> x1 e" "y0 e \<le> y1 e" "z0 e \<le> z1 e + 1"
  shows "nat (z1 e + 1 - z0 e) * nat (y1 e - y0 e + 1) * nat (x1 e - x0 e + 1) = NumberOfPoints e"
proof (cases "z1 e < z0 e")
  case True
  then have "z1 e + 1 = z0 e" using assms(3) by simp
  then show ?thesis using True by (simp add: NumberOfPoints_def)
next
  case False
  then have "z1 e + 1 - z0 e = z1 e - z0 e + 1" by simp
  then show ?thesis using assms False by (simp add: NumberOfPoints_def mult.commute mult.left_commute)
qed

lemma appendImageData_layer:
  assumes i: "i < length (PointData data0)"
    and sl: "GetScalars sl = Some b"
    and lay: "layer_of data0 (PointData data0 ! i) sl b"
    and rng: "copy_in_range data0 (PointData data0 ! i) b"
  shows "appendImageData fresh data0 sl i =
     Inr (data0\<lparr>Extent := (Extent data0)\<lparr>z1 := z1 (Extent data0) + 1\<rparr>,
               PointData := (PointData data0)
                 [i := (PointData data0 ! i)\<lparr>Storage := Storage (PointData data0 ! i) @ Storage b\<rparr>]\<rparr>)"
proof -
  let ?a = "PointData data0 ! i"
  let ?e = "Extent data0"
  let ?e' = "?e\<lparr>z1 := z1 ?e + 1\<rparr>"
  let ?c = "NumberOfComponents ?a"
  let ?sz = "ElementSize ?a"
  let ?layer = "nat (x1 ?e - x0 ?e + 1) * nat (y1 ?e - y0 ?e + 1)"
  from lay have fa: "scalars_fit data0 ?a" and fb: "scalars_fit sl b"
    and cb: "NumberOfComponents b = ?c" and eb: "ElementSize b = ?sz"
    and xy: "x0 (Extent sl) = x0 ?e" "x1 (Extent sl) = x1 ?e" "y0 (Extent sl) = y0 ?e"
            "y1 (Extent sl) = y1 ?e"
    and zs: "z0 (Extent sl) = z1 (Extent sl)"
    by (simp_all add: layer_of_def xy_extent_def)
  from rng have o: "x0 ?e = 0" "y0 ?e = 0" "0 \<le> x1 ?e" "0 \<le> y1 ?e" "z0 ?e \<le> z1 ?e + 1"
    and top: "\<not> 2147483647 \<le> z1 ?e"
    and small: "length (Storage ?a) < 2 ^ 31" "length (Storage b) < 2 ^ 31"
    by (auto simp add: copy_in_range_def)
  have la: "length (Storage ?a) = NumberOfPoints ?e * ?c * ?sz"
    using fa by (simp add: scalars_fit_def)
  have "NumberOfPoints (Extent sl) = ?layer"
    using NumberOfPoints_layer [of "Extent sl"] xy zs o by simp
  then have lb: "length (Storage b) = ?layer * ?c * ?sz"
    using fb cb eb by (simp add: scalars_fit_def)
  have grow: "NumberOfPoints ?e' = NumberOfPoints ?e + ?layer"
    using NumberOfPoints_grow [of ?e] o by simp
  have bufferSize: "to_c_int (GetNumberOfTuples ?a * ?c * ?sz) = int (length (Storage ?a))"
    using GetNumberOfTuples_fit [OF fa] small by (simp add: to_c_int_small)
  have sliceSize: "to_c_int (GetNumberOfTuples b * NumberOfComponents b * ?sz)
      = int (length (Storage b))"
    using GetNumberOfTuples_fit [OF fb] small eb by (simp add: to_c_int_small)
  define data1 where "data1 = AllocateScalars fresh i (data0\<lparr>Extent := ?e'\<rparr>)"
  define new_storage where "new_storage = Storage (PointData data1 ! i)"
  have P1: "PointData data1 = (PointData data0)[i := ?a\<lparr>Storage := new_storage\<rparr>]"
    using i by (simp add: data1_def new_storage_def AllocateScalars_def Let_def)
  have E1: "Extent data1 = ?e'"
    by (simp add: data1_def AllocateScalars_def Let_def)
  have "length new_storage = NumberOfPoints ?e' * ?c * ?sz"
    using i by (simp add: new_storage_def data1_def AllocateScalars_def Let_def)
  then have ln: "length new_storage = length (Storage ?a) + length (Storage b)"
    unfolding grow la lb by (simp add: algebra_simps)
  have a1: "PointData data1 ! i = ?a\<lparr>Storage := new_storage\<rparr>"
    using i by (simp add: P1)
  have ptr: "GetScalarPointer 0 0 (z1 ?e') data1 (PointData data1 ! i) = Some (length (Storage ?a))"
    using o NumberOfPoints_below [of ?e]
    by (simp add: GetScalarPointer_def E1 a1 la Let_def)
  define storage1 where "storage1 = write_bytes 0 (Storage ?a) new_storage"
  have s1: "storage1 = Storage ?a @ drop (length (Storage ?a)) new_storage"
    unfolding storage1_def using ln by (intro write_bytes_front) simp
  have l1: "length storage1 = length (Storage ?a) + length (Storage b)"
    using ln by (simp add: s1)
  have final: "write_bytes (length (Storage ?a)) (Storage b) storage1 = Storage ?a @ Storage b"
    using write_bytes_back [of storage1 "length (Storage ?a)" "Storage b"] l1 by (simp add: s1)
  have upd: "(PointData data1)[i := (PointData data1 ! i)\<lparr>Storage := Storage ?a @ Storage b\<rparr>]
      = (PointData data0)[i := ?a\<lparr>Storage := Storage ?a @ Storage b\<rparr>]"
    using i by (simp add: P1)
  have d1: "data1\<lparr>PointData := (PointData data0)[i := ?a\<lparr>Storage := Storage ?a @ Storage b\<rparr>]\<rparr>
      = data0\<lparr>Extent := ?e', PointData := (PointData data0)[i := ?a\<lparr>Storage := Storage ?a @ Storage b\<rparr>]\<rparr>"
    by (simp add: data1_def AllocateScalars_def Let_def)
  show ?thesis
    unfolding appendImageData_def Let_def bufferSize
    apply (simp only: data1_def [symmetric])
    apply (simp only: new_storage_def [symmetric])
    apply (simp add: top ln storage1_def [symmetric] ptr [simplified] sl sliceSize l1 final upd d1)
    done
qed

lemma appendSlice_layer_appended:
  assumes "GetScalars (ProducerOutput s) = Some a" and "GetScalars sl = Some b"
    and "layer_of (ProducerOutput s) a sl b \<and> copy_in_range (ProducerOutput s) a b"
  shows "\<exists>s' a'. appendSlice fresh (Some sl) s = Inr (True, s')
         \<and> Extent (ProducerOutput s')
             = (Extent (ProducerOutput s))\<lparr>z1 := z1 (Extent (ProducerOutput s)) + 1\<rparr>
         \<and> GetScalars (ProducerOutput s') = Some a'
         \<and> Storage a' = Storage a @ Storage b"
proof -
  let ?d = "ProducerOutput s"
  from assms obtain i where i: "ActiveScalarsIndex ?d = Some i" "i < length (PointData ?d)"
      "a = PointData ?d ! i"
    by (auto simp: GetScalars_def split: option.splits if_splits)
  have lay: "layer_of ?d (PointData ?d ! i) sl b"
    and rng: "copy_in_range ?d (PointData ?d ! i) b" using assms(3) i(3) by simp_all
  from lay have xy: "xy_extent sl = xy_extent ?d" by (simp add: layer_of_def)
  have m: "first_mismatch (take 4 (extent_list (Extent ?d))) (take 4 (extent_list (Extent sl))) = None"
    using xy by (simp add: extent_match xy_extent_def)
  let ?d' = "?d\<lparr>Extent := (Extent ?d)\<lparr>z1 := z1 (Extent ?d) + 1\<rparr>,
                 PointData := (PointData ?d)[i := (PointData ?d ! i)\<lparr>Storage := Storage a @ Storage b\<rparr>]\<rparr>"
  let ?s' = "emit pipelineExecute (emit dataPropertiesChanged (emit dataChanged (s\<lparr>ProducerOutput := ?d'\<rparr>)))"
  have "appendSlice fresh (Some sl) s = Inr (True, ?s')"
    using appendImageData_layer [OF i(2) _ lay rng, of fresh] assms(2) i
    by (simp add: appendSlice_def m Let_def)
  moreover have "GetScalars (ProducerOutput ?s') = Some ((PointData ?d ! i)\<lparr>Storage := Storage a @ Storage b\<rparr>)"
    using i by (simp add: GetScalars_def)
  ultimately show ?thesis
    by (intro exI [of _ ?s'] exI [of _ "(PointData ?d ! i)\<lparr>Storage := Storage a @ Storage b\<rparr>"]) simp
qed

text \<open>
  Claim C4, as amended. For every volume and every slice that is a layer of it (one z
  layer of the volume's x and y extent, scalar type and component count),
  \<^verbatim>\<open>appendSlice\<close> returns true, grows the z extent by one and leaves as the scalars of the
  volume the bytes it had, followed by the bytes of the slice: the new top layer. For
  every slice whose x or y extent differs from the volume's it returns false and leaves
  the volume as it is. This holds whatever the newly allocated memory contains. The
  first part is stated where the addressing and the \<^verbatim>\<open>int\<close> counts of the copy are right
  (\<open>copy_in_range\<close>); where the addressing is not, the copy goes to a null pointer
  (\<open>appendSlice_off_origin\<close> below).
\<close>

theorem appendSlice_layer_or_mismatch:
  "(\<forall>a b. GetScalars (ProducerOutput s) = Some a \<and> GetScalars sl = Some b
           \<and> layer_of (ProducerOutput s) a sl b \<and> copy_in_range (ProducerOutput s) a b \<longrightarrow>
      (\<exists>s' a'. appendSlice fresh (Some sl) s = Inr (True, s')
         \<and> Extent (ProducerOutput s')
             = (Extent (ProducerOutput s))\<lparr>z1 := z1 (Extent (ProducerOutput s)) + 1\<rparr>
         \<and> GetScalars (ProducerOutput s') = Some a'
         \<and> Storage a' = Storage a @ Storage b))
   \<and> (xy_extent sl \<noteq> xy_extent (ProducerOutput s) \<longrightarrow>
      (\<exists>s'. appendSlice fresh (Some sl) s = Inr (False, s')
         \<and> ProducerOutput s' = ProducerOutput s))"
proof (intro conjI allI impI)
  fix a b
  assume h: "GetScalars (ProducerOutput s) = Some a \<and> GetScalars sl = Some b
      \<and> layer_of (ProducerOutput s) a sl b \<and> copy_in_range (ProducerOutput s) a b"
  then show "\<exists>s' a'. appendSlice fresh (Some sl) s = Inr (True, s')
         \<and> Extent (ProducerOutput s')
             = (Extent (ProducerOutput s))\<lparr>z1 := z1 (Extent (ProducerOutput s)) + 1\<rparr>
         \<and> GetScalars (ProducerOutput s') = Some a'
         \<and> Storage a' = Storage a @ Storage b"
    using appendSlice_layer_appended [of s a sl b fresh] by blast
next
  assume "xy_extent sl \<noteq> xy_extent (ProducerOutput s)"
  then have "first_mismatch (take 4 (extent_list (Extent (ProducerOutput s))))
      (take 4 (extent_list (Extent sl))) \<noteq> None"
    by (auto simp: extent_match xy_extent_def)
  then obtain p q where "first_mismatch (take 4 (extent_list (Extent (ProducerOutput s))))
      (take 4 (extent_list (Extent sl))) = Some (p, q)" by auto
  then show "\<exists>s'. appendSlice fresh (Some sl) s = Inr (False, s')
         \<and> ProducerOutput s' = ProducerOutput s"
    by (simp add: appendSlice_def Let_def qWarning_def)
qed

lemma example_source_output:
  "ProducerOutput example_source = (example_image [''a''])\<lparr>ActiveScalarsIndex := Some 0\<rparr>"
  by (simp add: example_source_def init_def ensureActiveArray_def example_image_def GetScalars_def
      SetActiveScalars_def example_array_def Let_def)

theorem appendSlice_layer_or_mismatch_witness:
  "GetScalars (ProducerOutput example_source) = Some (example_array ''a'' [1, 2])
   \<and> GetScalars byte_slice = Some (example_array ''a'' [3, 4])
   \<and> layer_of (ProducerOutput example_source) (example_array ''a'' [1, 2])
        byte_slice (example_array ''a'' [3, 4])
   \<and> copy_in_range (ProducerOutput example_source) (example_array ''a'' [1, 2])
        (example_array ''a'' [3, 4])
   \<and> (\<exists>s' a'. appendSlice zeroed (Some byte_slice) example_source = Inr (True, s')
         \<and> z1 (Extent (ProducerOutput s')) = 1
         \<and> GetScalars (ProducerOutput s') = Some a' \<and> Storage a' = [1, 2, 3, 4])
   \<and> xy_extent shifted_slice \<noteq> xy_extent (ProducerOutput example_source)
   \<and> (\<exists>s'. appendSlice zeroed (Some shifted_slice) example_source = Inr (False, s')
         \<and> ProducerOutput s' = ProducerOutput example_source)"
proof -
  have g: "GetScalars (ProducerOutput example_source) = Some (example_array ''a'' [1, 2])"
    "GetScalars byte_slice = Some (example_array ''a'' [3, 4])"
    by (simp_all add: example_source_output GetScalars_def example_image_def byte_slice_def
        slice_image_def)
  have l: "layer_of (ProducerOutput example_source) (example_array ''a'' [1, 2])
        byte_slice (example_array ''a'' [3, 4])"
    "copy_in_range (ProducerOutput example_source) (example_array ''a'' [1, 2])
        (example_array ''a'' [3, 4])"
    by (simp_all add: layer_of_def copy_in_range_def scalars_fit_def xy_extent_def
        example_source_output example_image_def byte_slice_def slice_image_def example_array_def
        NumberOfPoints_def)
  have x: "xy_extent shifted_slice \<noteq> xy_extent (ProducerOutput example_source)"
    by (simp add: xy_extent_def shifted_slice_def example_source_output example_image_def)
  have e: "Extent (ProducerOutput example_source) = \<lparr>x0 = 0, x1 = 1, y0 = 0, y1 = 0, z0 = 0, z1 = 0\<rparr>"
    by (simp add: example_source_output example_image_def)
  from appendSlice_layer_or_mismatch [of example_source byte_slice zeroed] g l
  obtain s' a' where "appendSlice zeroed (Some byte_slice) example_source = Inr (True, s')"
    "Extent (ProducerOutput s') = (Extent (ProducerOutput example_source))
        \<lparr>z1 := z1 (Extent (ProducerOutput example_source)) + 1\<rparr>"
    "GetScalars (ProducerOutput s') = Some a'"
    "Storage a' = Storage (example_array ''a'' [1, 2]) @ Storage (example_array ''a'' [3, 4])"
    by blast
  then have 1: "\<exists>s' a'. appendSlice zeroed (Some byte_slice) example_source = Inr (True, s')
         \<and> z1 (Extent (ProducerOutput s')) = 1
         \<and> GetScalars (ProducerOutput s') = Some a' \<and> Storage a' = [1, 2, 3, 4]"
    by (simp add: e example_array_def)
  from appendSlice_layer_or_mismatch [of example_source shifted_slice zeroed] x
  have 2: "\<exists>s'. appendSlice zeroed (Some shifted_slice) example_source = Inr (False, s')
         \<and> ProducerOutput s' = ProducerOutput example_source"
    by blast
  show ?thesis using g l x 1 2 by blast
qed

lemma to_c_int_two: "to_c_int (Suc (Suc 0)) = 2"
proof -
  have "to_c_int 2 = 2" by (simp add: to_c_int_small)
  then show ?thesis by (simp only: numeral_2_eq_2)
qed

text \<open>
  The claim as stated asks nothing of the slice but its x and y extent. A one-layer slice
  of that extent with two-byte scalars, appended to a volume with one-byte scalars, is
  accepted, and the new layer receives the first half of its bytes.
\<close>

theorem appendSlice_short_slice_counterexample:
  "xy_extent short_slice = xy_extent (ProducerOutput example_source)
   \<and> map Storage (PointData short_slice) = [[3, 4, 5, 6]]
   \<and> map ElementSize (PointData short_slice) = [2]
   \<and> storage_after (appendSlice zeroed (Some short_slice) example_source)
       = Inr (True, [[1, 2, 3, 4]])"
  by (simp add: storage_after_def appendSlice_def appendImageData_def example_source_output
      example_image_def short_slice_def slice_image_def example_array_def xy_extent_def
      extent_list_def GetNumberOfTuples_def AllocateScalars_def NumberOfPoints_def
      GetScalarPointer_def GetScalars_def write_bytes_def zeroed_def emit_def to_c_int_two Let_def)

lemma shifted_source_output:
  "ProducerOutput shifted_source =
     (example_image [''a''])\<lparr>Extent := \<lparr>x0 = 1, x1 = 2, y0 = 0, y1 = 0, z0 = 0, z1 = 0\<rparr>,
       ActiveScalarsIndex := Some 0\<rparr>"
  by (simp add: shifted_source_def init_def ensureActiveArray_def example_image_def GetScalars_def
      SetActiveScalars_def example_array_def Let_def)

text \<open>
  A volume whose x extent starts at 1, and a one-layer slice of the same extent and type:
  \<^verbatim>\<open>GetScalarPointer(0, 0, z)\<close> is outside the extent, and the copy goes to a null
  pointer.
\<close>

lemma appendSlice_shifted_extent:
  "xy_extent shifted_slice = xy_extent (ProducerOutput shifted_source)
   \<and> appendSlice zeroed (Some shifted_slice) shifted_source = Inl NullPointer"
  by (simp add: appendSlice_def appendImageData_def shifted_source_output shifted_slice_def
      byte_slice_def example_image_def slice_image_def example_array_def xy_extent_def
      extent_list_def GetNumberOfTuples_def AllocateScalars_def NumberOfPoints_def
      GetScalarPointer_def GetScalars_def write_bytes_def zeroed_def to_c_int_two Let_def)

lemma NumberOfPoints_mono: "NumberOfPoints e \<le> NumberOfPoints (e\<lparr>z1 := z1 e + 1\<rparr>)"
  by (auto simp add: NumberOfPoints_def intro!: mult_le_mono)

text \<open>
  The defect in the addressing of the new layer. When the point \<open>(0, 0)\<close> is outside the
  x and y extent of the volume, \<^verbatim>\<open>GetScalarPointer(0, 0, z)\<close> is null for every slice that
  is a layer of the volume, and the copy of the slice goes to the null pointer.
\<close>

lemma appendSlice_off_origin:
  assumes a: "GetScalars (ProducerOutput s) = Some a" and b: "GetScalars sl = Some b"
    and lay: "layer_of (ProducerOutput s) a sl b"
    and small: "length (Storage a) < 2 ^ 31"
    and top: "z1 (Extent (ProducerOutput s)) + 1 < 2 ^ 31"
    and off: "0 < x0 (Extent (ProducerOutput s)) \<or> x1 (Extent (ProducerOutput s)) < 0
        \<or> 0 < y0 (Extent (ProducerOutput s)) \<or> y1 (Extent (ProducerOutput s)) < 0"
  shows "appendSlice fresh (Some sl) s = Inl NullPointer"
proof -
  let ?d = "ProducerOutput s"
  let ?e = "Extent ?d"
  let ?e' = "?e\<lparr>z1 := z1 ?e + 1\<rparr>"
  from a obtain i where i: "ActiveScalarsIndex ?d = Some i" "i < length (PointData ?d)"
      "a = PointData ?d ! i"
    by (auto simp: GetScalars_def split: option.splits if_splits)
  from lay have fa: "scalars_fit ?d a" and xy: "xy_extent sl = xy_extent ?d"
    by (simp_all add: layer_of_def)
  have m: "first_mismatch (take 4 (extent_list ?e)) (take 4 (extent_list (Extent sl))) = None"
    using xy by (simp add: extent_match xy_extent_def)
  have la: "length (Storage a) = NumberOfPoints ?e * NumberOfComponents a * ElementSize a"
    using fa by (simp add: scalars_fit_def)
  have bufferSize: "to_c_int (GetNumberOfTuples a * NumberOfComponents a * ElementSize a)
      = int (length (Storage a))"
    using GetNumberOfTuples_fit [OF fa] small by (simp add: to_c_int_small)
  define data1 where "data1 = AllocateScalars fresh i (?d\<lparr>Extent := ?e'\<rparr>)"
  have E1: "Extent data1 = ?e'"
    by (simp add: data1_def AllocateScalars_def Let_def)
  have "length (Storage (PointData data1 ! i))
      = NumberOfPoints ?e' * NumberOfComponents a * ElementSize a"
    using i by (simp add: data1_def AllocateScalars_def Let_def)
  then have ln: "\<not> length (Storage (PointData data1 ! i)) < length (Storage a)"
    using NumberOfPoints_mono [of ?e] by (simp add: la mult_le_mono1 not_less)
  have ptr: "GetScalarPointer 0 0 (z1 ?e') data1 (PointData data1 ! i) = None"
    using off by (auto simp add: GetScalarPointer_def E1 Let_def)
  have t: "\<not> 2147483647 \<le> z1 ?e"
    using top by simp
  have "appendImageData fresh ?d sl i = Inl NullPointer"
    unfolding appendImageData_def Let_def i(3) [symmetric] bufferSize
    apply (simp only: data1_def [symmetric])
    apply (simp add: t ln ptr [simplified])
    done
  then show ?thesis
    using i by (simp add: appendSlice_def m Let_def)
qed

subsection \<open>Tilt angles\<close>

lemma c_int_value_in_range:
  assumes "- (2 ^ 31) \<le> k" and "k < 2 ^ 31"
  shows "c_int_value k = k"
proof -
  have "sint (word_of_int k :: 32 word) = signed_take_bit 31 k"
    by (simp only: sint_sbintrunc') simp
  also have "\<dots> = k"
    using assms by (intro signed_take_bit_int_eq_self) simp_all
  finally show ?thesis by (simp add: c_int_value_def)
qed

lemma length_SetNumberOfTuples [simp]: "length (SetNumberOfTuples n xs) = n"
  by (simp add: SetNumberOfTuples_def)

lemma numTiltAngles:
  "0 \<le> z_length d \<Longrightarrow> z_length d < 2 ^ 31 \<Longrightarrow>
   c_int_value (z1 (Extent d) - z0 (Extent d) + 1) = z_length d"
  unfolding z_length_def by (rule c_int_value_in_range) simp_all

lemma createOrResizeTiltAnglesArray_length:
  assumes "0 \<le> z_length d" and "z_length d < 2 ^ 31"
  shows "\<exists>array. tilt_angles (FieldData (createOrResizeTiltAnglesArray d)) = Some array
           \<and> int (length array) = z_length d"
proof (cases "tilt_angles (FieldData d)")
  case None
  then show ?thesis using assms
    by (simp add: createOrResizeTiltAnglesArray_def numTiltAngles Let_def)
next
  case (Some array)
  then show ?thesis using assms
    by (simp add: createOrResizeTiltAnglesArray_def numTiltAngles Let_def)
qed

lemma createOrResizeTiltAnglesArray_created:
  "0 \<le> z_length d \<Longrightarrow> z_length d < 2 ^ 31 \<Longrightarrow> tilt_angles (FieldData d) = None \<Longrightarrow>
   tilt_angles (FieldData (createOrResizeTiltAnglesArray d))
     = Some (replicate (nat (z_length d)) (Some 0))"
  by (simp add: createOrResizeTiltAnglesArray_def numTiltAngles Let_def)

lemma createOrResizeTiltAnglesArray_shrunk:
  "0 \<le> z_length d \<Longrightarrow> z_length d < 2 ^ 31 \<Longrightarrow>
   tilt_angles (FieldData d) = Some array \<Longrightarrow> z_length d \<le> int (length array) \<Longrightarrow>
   tilt_angles (FieldData (createOrResizeTiltAnglesArray d))
     = Some (take (nat (z_length d)) array)"
  by (auto simp: createOrResizeTiltAnglesArray_def numTiltAngles SetNumberOfTuples_def Let_def)

lemma z_length_frames [simp]:
  "z_length (createOrResizeTiltAnglesArray d) = z_length d"
  "z_length (setType_image t d) = z_length d"
  by (simp_all add: z_length_def)

lemma setType_image_tilt:
  "tilt_angles (FieldData (setType_image TiltSeries d)) = tilt_angles (FieldData d)"
  by (simp add: setType_image_def Let_def)

lemma setType_TiltSeries_output:
  "ProducerOutput (setType TiltSeries s)
     = createOrResizeTiltAnglesArray (setType_image TiltSeries (ProducerOutput s))"
  by (simp add: setType_def ensureTiltAnglesArrayExists_def Let_def)

lemma setType_fit:
  assumes "0 \<le> z_length (ProducerOutput s)" and "z_length (ProducerOutput s) < 2 ^ 31"
  shows "tilt_angles_fit (setType TiltSeries s)"
  using createOrResizeTiltAnglesArray_length [of "setType_image TiltSeries (ProducerOutput s)"] assms
  by (auto simp: tilt_angles_fit_def setType_TiltSeries_output)

lemma tilt_angles_fit_emit [simp]: "tilt_angles_fit (emit e s) = tilt_angles_fit s"
  by (simp add: tilt_angles_fit_def cong: option.case_cong)

lemma dataModified_tagged:
  "tomviz_data_source_type (FieldData (ProducerOutput s)) = Some t \<Longrightarrow>
   dataModified s = emit dataChanged (setType t s)"
  by (simp add: dataModified_def Let_def)

lemma setTiltAngles_fit:
  assumes "0 \<le> z_length (ProducerOutput s)" and "z_length (ProducerOutput s) < 2 ^ 31"
  shows "tilt_angles_fit (setTiltAngles angles s)"
proof -
  obtain array where a: "tilt_angles (FieldData (createOrResizeTiltAnglesArray (ProducerOutput s))) = Some array"
    "int (length array) = z_length (ProducerOutput s)"
    using createOrResizeTiltAnglesArray_length [OF assms] by blast
  have "length (map Some (take (length array) angles) @ drop (length angles) array) = length array"
    by simp
  then show ?thesis using a
    by (simp add: tilt_angles_fit_def setTiltAngles_def setTiltAngles_image_def Let_def z_length_def)
qed

lemma setData_as_dataModified:
  "\<exists>s5. setData newData s = dataModified s5
      \<and> tomviz_data_source_type (FieldData (ProducerOutput s5)) = Some (Type s5)
      \<and> Extent (ProducerOutput s5) = Extent newData"
  unfolding setData_def Let_def
  apply (intro exI conjI)
    apply (rule refl)
   apply (simp split: option.split vtkStringArray.split)
  apply (simp add: ensureTiltAnglesArrayExists_def split: option.split vtkStringArray.split)
  done

text \<open>
  The operations that call \<^verbatim>\<open>createOrResizeTiltAnglesArray\<close> keep the tilt angles as long
  as the z extent, on a data whose z extent has a length from 0 to the largest \<^verbatim>\<open>int\<close>:
  after \<^verbatim>\<open>setType\<close> and after \<^verbatim>\<open>setData\<close>, a data source of type \<^verbatim>\<open>TiltSeries\<close> has a
  tilt angle array as long as the z extent; after \<^verbatim>\<open>setTiltAngles\<close> every data source
  has. An array that \<^verbatim>\<open>setType\<close> creates is filled with zeros, and an array that it
  shortens keeps its leading values.
\<close>

lemma tilt_angles_length:
  assumes "0 \<le> z_length (ProducerOutput s)" and "z_length (ProducerOutput s) < 2 ^ 31"
    and "0 \<le> z_length newData" and "z_length newData < 2 ^ 31"
  shows "(Type (setType t s) = TiltSeries \<longrightarrow> tilt_angles_fit (setType t s))
     \<and> (Type (setData newData s) = TiltSeries \<longrightarrow> tilt_angles_fit (setData newData s))
     \<and> tilt_angles_fit (setTiltAngles angles s)
     \<and> (tilt_angles (FieldData (ProducerOutput s)) = None \<longrightarrow>
          getTiltAngles (setType TiltSeries s)
            = replicate (nat (z_length (ProducerOutput s))) (Some 0))
     \<and> (\<forall>array. tilt_angles (FieldData (ProducerOutput s)) = Some array
            \<and> z_length (ProducerOutput s) \<le> int (length array) \<longrightarrow>
          getTiltAngles (setType TiltSeries s) = take (nat (z_length (ProducerOutput s))) array)"
proof (intro conjI impI allI)
  assume "Type (setType t s) = TiltSeries"
  then have "t = TiltSeries" by simp
  then show "tilt_angles_fit (setType t s)" using setType_fit [OF assms(1,2)] by simp
next
  assume T: "Type (setData newData s) = TiltSeries"
  obtain s5 where s5: "setData newData s = dataModified s5"
    "tomviz_data_source_type (FieldData (ProducerOutput s5)) = Some (Type s5)"
    "Extent (ProducerOutput s5) = Extent newData"
    using setData_as_dataModified by blast
  have eq: "setData newData s = emit dataChanged (setType (Type s5) s5)"
    using s5(1) dataModified_tagged [OF s5(2)] by simp
  then have "Type s5 = TiltSeries" using T by simp
  moreover have "0 \<le> z_length (ProducerOutput s5)" "z_length (ProducerOutput s5) < 2 ^ 31"
    using assms(3,4) s5(3) by (simp_all add: z_length_def)
  ultimately show "tilt_angles_fit (setData newData s)"
    using setType_fit [of s5] by (simp add: eq)
next
  show "tilt_angles_fit (setTiltAngles angles s)"
    using setTiltAngles_fit [OF assms(1,2)] .
next
  assume "tilt_angles (FieldData (ProducerOutput s)) = None"
  then show "getTiltAngles (setType TiltSeries s)
      = replicate (nat (z_length (ProducerOutput s))) (Some 0)"
    using createOrResizeTiltAnglesArray_created [of "setType_image TiltSeries (ProducerOutput s)"]
      assms(1,2)
    by (simp add: getTiltAngles_def setType_TiltSeries_output setType_image_tilt)
next
  fix array
  assume "tilt_angles (FieldData (ProducerOutput s)) = Some array
      \<and> z_length (ProducerOutput s) \<le> int (length array)"
  then show "getTiltAngles (setType TiltSeries s) = take (nat (z_length (ProducerOutput s))) array"
    using createOrResizeTiltAnglesArray_shrunk [of "setType_image TiltSeries (ProducerOutput s)" array]
      assms(1,2)
    by (simp add: getTiltAngles_def setType_TiltSeries_output setType_image_tilt)
qed

lemma tilt_source_fields:
  "Type tilt_source = TiltSeries"
  "Extent (ProducerOutput tilt_source) = \<lparr>x0 = 0, x1 = 1, y0 = 0, y1 = 0, z0 = 0, z1 = 0\<rparr>"
  "PointData (ProducerOutput tilt_source) = [example_array ''a'' [1, 2]]"
  "ActiveScalarsIndex (ProducerOutput tilt_source) = Some 0"
  "tilt_angles (FieldData (ProducerOutput tilt_source)) = Some [Some 30]"
  by (simp_all add: tilt_source_def setTiltAngles_def setTiltAngles_image_def setType_TiltSeries_output
      createOrResizeTiltAnglesArray_def setType_image_def example_source_output example_image_def
      no_field_data_def c_int_value_def Let_def)

lemma tilt_angles_length_example:
  "tilt_angles (FieldData (ProducerOutput example_source)) = None
   \<and> tilt_angles_fit (setType TiltSeries example_source)
   \<and> tilt_angles_fit (setTiltAngles [30, 60] example_source)
   \<and> getTiltAngles (setType TiltSeries example_source) = [Some 0]"
proof -
  have h: "0 \<le> z_length (ProducerOutput example_source)"
    "z_length (ProducerOutput example_source) < 2 ^ 31"
    "0 \<le> z_length byte_slice" "z_length byte_slice < 2 ^ 31"
    "tilt_angles (FieldData (ProducerOutput example_source)) = None"
    "nat (z_length (ProducerOutput example_source)) = 1"
    by (simp_all add: z_length_def example_source_output example_image_def byte_slice_def
        slice_image_def no_field_data_def)
  from tilt_angles_length [OF h(1,2,3,4), of TiltSeries "[30, 60]"] h(5,6)
  have "tilt_angles_fit (setType TiltSeries example_source)"
    "tilt_angles_fit (setTiltAngles [30, 60] example_source)"
    "getTiltAngles (setType TiltSeries example_source) = [Some 0]"
    by simp_all
  with h show ?thesis by simp
qed

text \<open>
  What \<^verbatim>\<open>appendImageData\<close> returns has the field data of the volume and its extent with
  one more z layer.
\<close>

lemma appendImageData_frame:
  assumes "appendImageData fresh d sl i = Inr d'"
  shows "FieldData d' = FieldData d"
    and "Extent d' = (Extent d)\<lparr>z1 := z1 (Extent d) + 1\<rparr>"
  using assms
  by (auto simp add: appendImageData_def AllocateScalars_def Let_def
      split: if_splits option.splits)

text \<open>
  Claim C7 at \<^verbatim>\<open>appendSlice\<close>. Whenever \<^verbatim>\<open>appendSlice\<close> appends a slice, the z extent has
  one more layer and the type and the tilt angles are what they were: \<^verbatim>\<open>appendSlice\<close>
  calls neither \<^verbatim>\<open>createOrResizeTiltAnglesArray\<close> nor \<^verbatim>\<open>dataModified\<close>, which the other
  three operations do. A tilt series whose tilt angles were as many as its layers has
  one angle too few afterwards.
\<close>

theorem appendSlice_leaves_tilt_angles:
  assumes "appendSlice fresh (Some sl) s = Inr (True, s')"
  shows "z_length (ProducerOutput s') = z_length (ProducerOutput s) + 1
     \<and> Type s' = Type s
     \<and> tilt_angles (FieldData (ProducerOutput s')) = tilt_angles (FieldData (ProducerOutput s))
     \<and> (tilt_angles_fit s \<longrightarrow> \<not> tilt_angles_fit s')"
proof -
  from assms obtain i d' where a: "appendImageData fresh (ProducerOutput s) sl i = Inr d'"
    and s': "s' = emit pipelineExecute (emit dataPropertiesChanged
                    (emit dataChanged (s\<lparr>ProducerOutput := d'\<rparr>)))"
    by (auto simp add: appendSlice_def Let_def split: option.splits if_splits sum.splits)
  note f = appendImageData_frame [OF a]
  have z: "z_length (ProducerOutput s') = z_length (ProducerOutput s) + 1"
    by (simp add: s' z_length_def f(2))
  have t: "tilt_angles (FieldData (ProducerOutput s')) = tilt_angles (FieldData (ProducerOutput s))"
    by (simp add: s' f(1))
  have "\<not> tilt_angles_fit s'" if "tilt_angles_fit s"
    using that unfolding tilt_angles_fit_def t z by (simp split: option.splits)
  then show ?thesis
    using z t by (simp add: s')
qed

theorem appendSlice_leaves_tilt_angles_witness:
  "Type tilt_source = TiltSeries
   \<and> tilt_angles_fit tilt_source
   \<and> getTiltAngles tilt_source = [Some 30]
   \<and> (\<exists>s'. appendSlice zeroed (Some byte_slice) tilt_source = Inr (True, s')
         \<and> Type s' = TiltSeries \<and> z_length (ProducerOutput s') = 2
         \<and> getTiltAngles s' = [Some 30] \<and> \<not> tilt_angles_fit s')"
proof -
  have g: "GetScalars (ProducerOutput tilt_source) = Some (example_array ''a'' [1, 2])"
    "GetScalars byte_slice = Some (example_array ''a'' [3, 4])"
    by (simp_all add: GetScalars_def tilt_source_fields byte_slice_def slice_image_def)
  have l: "layer_of (ProducerOutput tilt_source) (example_array ''a'' [1, 2])
        byte_slice (example_array ''a'' [3, 4])
      \<and> copy_in_range (ProducerOutput tilt_source) (example_array ''a'' [1, 2])
        (example_array ''a'' [3, 4])"
    by (simp add: layer_of_def copy_in_range_def scalars_fit_def xy_extent_def tilt_source_fields
        byte_slice_def slice_image_def example_array_def NumberOfPoints_def)
  have "\<exists>s'. appendSlice zeroed (Some byte_slice) tilt_source = Inr (True, s')"
    using appendSlice_layer_appended [of tilt_source "example_array ''a'' [1, 2]" byte_slice
        "example_array ''a'' [3, 4]" zeroed] g l
    by blast
  then obtain s' where r: "appendSlice zeroed (Some byte_slice) tilt_source = Inr (True, s')"
    by blast
  have f: "tilt_angles_fit tilt_source" "z_length (ProducerOutput tilt_source) = 1"
    "getTiltAngles tilt_source = [Some 30]"
    by (simp_all add: tilt_angles_fit_def z_length_def getTiltAngles_def tilt_source_fields)
  from appendSlice_leaves_tilt_angles [OF r] f
  have "Type s' = TiltSeries \<and> z_length (ProducerOutput s') = 2
      \<and> getTiltAngles s' = [Some 30] \<and> \<not> tilt_angles_fit s'"
    by (simp add: getTiltAngles_def tilt_source_fields(1))
  with r f show ?thesis
    by (auto simp add: tilt_source_fields(1))
qed

subsection \<open>Renames applied from a document\<close>

lemma setActiveScalars_label [simp]:
  "m_json_label (setActiveScalars n s) = m_json_label s"
  by (cases "getScalarsArray n s") (simp_all add: setActiveScalars_def qWarning_def)

lemma renameScalarsArray_label [simp]:
  "m_json_label (renameScalarsArray a b s) = m_json_label s"
  by (cases "getScalarsArray a s"; cases "getScalarsArray b s")
     (simp_all add: renameScalarsArray_def Let_def)

lemma renameScalarsArray_same [simp]: "renameScalarsArray a a s = s"
  by (simp add: renameScalarsArray_def)




subsection \<open>The renames a document carries\<close>






subsection \<open>What the setters of the document leave unchanged\<close>

lemma tracked_setters [simp]:
  "tracked (setSpacing sp mm s) = tracked s"
  "tracked (setUnits u mm s) = tracked s"
  "tracked (setDisplayPosition pos s) = tracked s"
  "tracked (setDisplayOrientation ori s) = tracked s"
     apply (simp add: tracked_def setSpacing_def Let_def emit_def)
    apply (cases "Units (if mm then s\<lparr>UnitsModified := True\<rparr> else s)";
      simp add: tracked_def setUnits_def Let_def emit_def)
   apply (simp add: tracked_def setDisplayPosition_def emit_def)
  apply (simp add: tracked_def setDisplayOrientation_def emit_def)
  done

lemma tracked_fields:
  assumes "tracked s' = tracked s"
  shows "m_json_label s' = m_json_label s"
    and "PointData (ProducerOutput s') = PointData (ProducerOutput s)"
    and "ActiveScalarsIndex (ProducerOutput s') = ActiveScalarsIndex (ProducerOutput s)"
    and "CurrentToOriginal s' = CurrentToOriginal s"
  using assms unfolding tracked_def by blast+

lemma deserialize_without_operators:
  assumes "json_operators state = None" "json_modules state = None"
    and "json_label state = Some l" "json_scalarsRename state = Some R"
    and "json_activeScalars state = Some n"
  shows "tracked (deserialize mm ex state t)
     = tracked (setActiveScalars n
         (fold (\<lambda>(key, val) u. renameScalarsArray key val u) R (setLabel l t)))"
proof -
  define s3 where "s3 = setActiveScalars n
         (fold (\<lambda>(key, val) u. renameScalarsArray key val u) R (setLabel l t))"
  define s4 where "s4 = (case json_spacing state of
                  Some spacing \<Rightarrow> setSpacing spacing mm s3 | None \<Rightarrow> s3)"
  define s5 where "s5 = (case json_units state of Some u \<Rightarrow> setUnits u mm s4 | None \<Rightarrow> s4)"
  define s6 where "s6 = (case json_origin state of
                  Some origin \<Rightarrow> setDisplayPosition origin s5 | None \<Rightarrow> s5)"
  define s7 where "s7 = (case json_orientation state of
                  Some orientation \<Rightarrow> setDisplayOrientation orientation s6 | None \<Rightarrow> s6)"
  have "deserialize mm ex state t = s7"
    by (simp add: deserialize_def Let_def assms s7_def s6_def s5_def s4_def s3_def
        split: option.split)
  moreover have "tracked s4 = tracked s3"
    unfolding s4_def by (cases "json_spacing state") simp_all
  moreover have "tracked s5 = tracked s4"
    unfolding s5_def by (cases "json_units state") simp_all
  moreover have "tracked s6 = tracked s5"
    unfolding s6_def by (cases "json_origin state") simp_all
  moreover have "tracked s7 = tracked s6"
    unfolding s7_def by (cases "json_orientation state") simp_all
  ultimately show ?thesis unfolding s3_def by simp
qed



lemma emit_more_fields [simp]:
  "Operators (emit e s) = Operators s"
  "Modules (emit e s) = Modules s"
  "UnitsModified (emit e s) = UnitsModified s"
  by (simp_all add: emit_def)

lemma setType_more_fields [simp]:
  "Operators (setType t s) = Operators s"
  "Modules (setType t s) = Modules s"
  "UnitsModified (setType t s) = UnitsModified s"
  by (cases "t = TiltSeries"; simp add: setType_def ensureTiltAnglesArrayExists_def Let_def)+

lemma dataModified_more_fields [simp]:
  "Operators (dataModified s) = Operators s"
  "Modules (dataModified s) = Modules s"
  "UnitsModified (dataModified s) = UnitsModified s"
  by (cases "tomviz_data_source_type (FieldData (ProducerOutput s))";
      simp add: dataModified_def Let_def)+

lemma setActiveScalars_more_fields [simp]:
  "m_json_fileNames (setActiveScalars n s) = m_json_fileNames s"
  "Operators (setActiveScalars n s) = Operators s"
  "Modules (setActiveScalars n s) = Modules s"
  "UnitsModified (setActiveScalars n s) = UnitsModified s"
  by (cases "getScalarsArray n s"; simp add: setActiveScalars_def qWarning_def)+

lemma renameScalarsArray_more_fields [simp]:
  "m_json_fileNames (renameScalarsArray a b s) = m_json_fileNames s"
  "Operators (renameScalarsArray a b s) = Operators s"
  "Modules (renameScalarsArray a b s) = Modules s"
  "UnitsModified (renameScalarsArray a b s) = UnitsModified s"
  by (cases "getScalarsArray a s"; cases "getScalarsArray b s";
      simp add: renameScalarsArray_def Let_def)+

lemma two_array_source_more:
  "Operators two_array_source = []" "Modules two_array_source = []"
  "m_json_label two_array_source = None" "m_json_fileNames two_array_source = None"
  "listScalars two_array_source = [''a'', ''c'']" "activeScalars two_array_source = ''a''"
  "getScalarsArray ''a'' two_array_source = Some 0" "getScalarsArray ''b'' two_array_source = None"
  by (simp_all add: listScalars_def activeScalars_def getScalarsArray_named GetScalars_def
      two_array_source_fields example_array_def)
     (simp_all add: two_array_source_def init_def Let_def)






lemma renameScalarsArray_taken:
  "getScalarsArray b s \<noteq> None \<Longrightarrow> renameScalarsArray a b s = s"
  by (auto simp add: renameScalarsArray_def Let_def split: option.split)

lemma swapped_source_fields:
  "PointData (ProducerOutput swapped_source)
     = [example_array ''c'' [1, 2], example_array ''a'' [1, 2]]"
  "ActiveScalarsIndex (ProducerOutput swapped_source) = Some 0"
  "CurrentToOriginal swapped_source = [(''a'', ''c''), (''c'', ''a'')]"
  "Operators swapped_source = []" "Modules swapped_source = []"
  "m_json_label swapped_source = None" "m_json_fileNames swapped_source = None"
proof -
  define s1 where "s1 = renameScalarsArray ''a'' ''t'' two_array_source"
  define s2 where "s2 = renameScalarsArray ''c'' ''a'' s1"
  have s3: "swapped_source = renameScalarsArray ''t'' ''c'' s2"
    by (simp add: swapped_source_def s2_def s1_def)
  note t = two_array_source_fields two_array_source_more
  have g0: "getScalarsArray ''a'' two_array_source = Some 0"
    "getScalarsArray ''t'' two_array_source = None"
    by (simp_all add: getScalarsArray_named t example_array_def)
  note e1 = renameScalarsArray_effect [OF _ g0, folded s1_def, simplified]
  have f1: "PointData (ProducerOutput s1) = [example_array ''t'' [1, 2], example_array ''c'' [1, 2]]"
    "ActiveScalarsIndex (ProducerOutput s1) = Some 0"
    "CurrentToOriginal s1 = [(''c'', ''c''), (''t'', ''a'')]"
    by (simp_all add: e1 t example_array_def qmap_insert_def qmap_remove_def qmap_value_def)
  have a1: "activeScalars s1 = ''t''"
    by (simp add: activeScalars_def GetScalars_def f1 example_array_def)
  have g1: "getScalarsArray ''c'' s1 = Some 1" "getScalarsArray ''a'' s1 = None"
    by (simp_all add: getScalarsArray_named f1 example_array_def)
  note e2 = renameScalarsArray_effect [OF _ g1, folded s2_def, simplified]
  have f2: "PointData (ProducerOutput s2) = [example_array ''t'' [1, 2], example_array ''a'' [1, 2]]"
    "ActiveScalarsIndex (ProducerOutput s2) = Some 0"
    "CurrentToOriginal s2 = [(''a'', ''c''), (''t'', ''a'')]"
    by (simp_all add: e2 f1 a1 example_array_def qmap_insert_def qmap_remove_def qmap_value_def)
  have a2: "activeScalars s2 = ''t''"
    by (simp add: activeScalars_def GetScalars_def f2 example_array_def)
  have g2: "getScalarsArray ''t'' s2 = Some 0" "getScalarsArray ''c'' s2 = None"
    by (simp_all add: getScalarsArray_named f2 example_array_def)
  note e3 = renameScalarsArray_effect [OF _ g2, folded s3, simplified]
  show "PointData (ProducerOutput swapped_source)
     = [example_array ''c'' [1, 2], example_array ''a'' [1, 2]]"
    "ActiveScalarsIndex (ProducerOutput swapped_source) = Some 0"
    "CurrentToOriginal swapped_source = [(''a'', ''c''), (''c'', ''a'')]"
    by (simp_all add: e3 f2 a2 example_array_def qmap_insert_def qmap_remove_def qmap_value_def)
  show "Operators swapped_source = []" "Modules swapped_source = []"
    "m_json_label swapped_source = None" "m_json_fileNames swapped_source = None"
    by (simp_all add: swapped_source_def t)
qed

text \<open>
  A data source whose two arrays have exchanged their names: both renames of its
  document are refused, because the new name is still taken, and the data source that
  \<^verbatim>\<open>deserialize\<close> leaves has the arrays under their original names and the identity as
  its rename map.
\<close>

lemma deserialize_swapped_names_example:
  "Operators swapped_source = [] \<and> Modules swapped_source = []
   \<and> listScalars swapped_source = [''c'', ''a'']
   \<and> CurrentToOriginal swapped_source = [(''a'', ''c''), (''c'', ''a'')]
   \<and> listScalars two_array_source = [''a'', ''c'']
   \<and> listScalars (deserialize True True (serialize swapped_source) two_array_source)
        = [''a'', ''c'']
   \<and> CurrentToOriginal (deserialize True True (serialize swapped_source) two_array_source)
        = [(''a'', ''a''), (''c'', ''c'')]"
proof -
  note f = swapped_source_fields
  note t = two_array_source_fields two_array_source_more
  have act: "activeScalars swapped_source = ''c''"
    by (simp add: activeScalars_def GetScalars_def f example_array_def)
  have doc: "json_operators (serialize swapped_source) = None"
    "json_modules (serialize swapped_source) = None"
    "json_label (serialize swapped_source) = Some []"
    "json_scalarsRename (serialize swapped_source) = Some [(''a'', ''c''), (''c'', ''a'')]"
    "json_activeScalars (serialize swapped_source) = Some ''c''"
    by (simp_all add: serialize_def f act label_def fileName_def baseName_def qmap_insert_def
        qmap_remove_def)
  define t1 where "t1 = setLabel [] two_array_source"
  have t1: "PointData (ProducerOutput t1) = PointData (ProducerOutput two_array_source)"
    "CurrentToOriginal t1 = CurrentToOriginal two_array_source"
    by (simp_all add: t1_def setLabel_def)
  have g: "getScalarsArray ''c'' t1 = Some 1" "getScalarsArray ''a'' t1 = Some 0"
    by (simp_all add: getScalarsArray_named t1 t example_array_def)
  have r: "fold (\<lambda>(key, val) u. renameScalarsArray key val u) [(''a'', ''c''), (''c'', ''a'')] t1 = t1"
    by (simp add: renameScalarsArray_taken g)
  have "tracked (deserialize True True (serialize swapped_source) two_array_source)
      = tracked (setActiveScalars ''c'' t1)"
    using deserialize_without_operators [OF doc, of True True two_array_source, folded t1_def]
    unfolding r .
  note tr = tracked_fields [OF this]
  have n: "''c'' \<noteq> []" by simp
  note sa = setActiveScalars_found [OF n g(1)]
  have "listScalars (deserialize True True (serialize swapped_source) two_array_source)
        = [''a'', ''c'']"
    using sa by (simp add: listScalars_def tr(2) t1 t example_array_def)
  moreover have "CurrentToOriginal (deserialize True True (serialize swapped_source) two_array_source)
        = [(''a'', ''a''), (''c'', ''c'')]"
    using sa by (simp add: tr(4) t1 t)
  moreover have "listScalars swapped_source = [''c'', ''a'']"
    by (simp add: listScalars_def f example_array_def)
  ultimately show ?thesis
    by (simp add: f t)
qed

end
